theory Spec2Isabelle
  imports Main "HOL-Library.Word"
begin

section \<open>Data model\<close>

text \<open>
  The comment subsystem has three layers: the relational schema with its triggers
  (the SQL migration), the \<open>useComments\<close> hook (fetchComments, createComment,
  likeComment) and the post card component. Identifiers are the strings the client
  sees (UUID text), JavaScript strings are sequences of UTF-16 code units, and a
  \<open>TIMESTAMPTZ\<close> is the integer number of microseconds it stores.
\<close>

type_synonym uuid = string
type_synonym js_string = "16 word list"
type_synonym timestamptz = int

text \<open>
  Table \<open>public.comments\<close>. Column \<open>id\<close> is field \<open>c_id\<close>, and so on for the
  other columns; \<open>parent_id\<close> and \<open>likes_count\<close> are nullable.
\<close>

record comment_row =
  c_id :: uuid
  c_user_id :: uuid
  c_post_id :: uuid
  c_content :: js_string
  c_parent_id :: "uuid option"
  c_likes_count :: "int option"
  c_created_at :: timestamptz
  c_updated_at :: timestamptz

text \<open>Table \<open>public.comment_likes\<close>.\<close>

record like_row =
  l_id :: uuid
  l_comment_id :: uuid
  l_user_id :: uuid
  l_created_at :: timestamptz

text \<open>
  The columns of \<open>profiles\<close> that the comments query joins in. The table is declared
  outside the migration; only these four columns are read.
\<close>

record profile =
  pr_username :: "js_string option"
  pr_display_name :: "js_string option"
  pr_avatar_url :: "js_string option"
  pr_badge :: "js_string option"

text \<open>
  The client-side \<open>Comment\<close> interface: the columns of the row (copied by the object
  spread) extended by the joined profile fields and the \<open>is_liked\<close> flag. The optional
  \<open>replies\<close> field makes the type recursive.
\<close>

record comment_info = comment_row +
  username :: "js_string option"
  display_name :: "js_string option"
  avatar_url :: "js_string option"
  badge :: "js_string option"
  is_liked :: bool

datatype comment = Comment (info: comment_info) (replies: "comment list option")

section \<open>JavaScript primitives\<close>

text \<open>
  \<open>String.prototype.trim\<close> removes the ECMAScript WhiteSpace and LineTerminator code
  points from both ends: TAB, LF, VT, FF, CR, SP, NBSP, U+1680, U+2000 to U+200A,
  U+2028, U+2029, U+202F, U+205F, U+3000 and U+FEFF. All of them are single code
  units.
\<close>

definition is_js_whitespace :: "16 word \<Rightarrow> bool" where
  "is_js_whitespace u \<longleftrightarrow>
     u \<in> set [0x0009, 0x000A, 0x000B, 0x000C, 0x000D, 0x0020, 0x00A0, 0x1680,
               0x2000, 0x2001, 0x2002, 0x2003, 0x2004, 0x2005, 0x2006, 0x2007,
               0x2008, 0x2009, 0x200A, 0x2028, 0x2029, 0x202F, 0x205F, 0x3000,
               0xFEFF]"

definition trim :: "js_string \<Rightarrow> js_string" where
  "trim s = rev (dropWhile is_js_whitespace (rev (dropWhile is_js_whitespace s)))"

text \<open>
  Truthiness of an optional string, as the test \<open>!comment.parent_id\<close> reads it:
  \<open>null\<close>, \<open>undefined\<close> and the empty string are falsy.
\<close>

definition falsy :: "string option \<Rightarrow> bool" where
  "falsy v = (case v of None \<Rightarrow> True | Some s \<Rightarrow> s = [])"

section \<open>Building the comment tree\<close>

text \<open>
  The three local constants of \<open>fetchComments\<close> that shape the query result.
  \<open>commentsData\<close> pairs each row with the joined \<open>profiles\<close> object (absent when the
  author has no profile); \<open>userLikes\<close> is the list of comment ids the user liked.
\<close>

definition transformedComments ::
  "(comment_row \<times> profile option) list \<Rightarrow> uuid list \<Rightarrow> comment_info list" where
  "transformedComments commentsData userLikes =
     map (\<lambda>(comment, profiles).
            \<lparr> c_id = c_id comment, c_user_id = c_user_id comment,
              c_post_id = c_post_id comment, c_content = c_content comment,
              c_parent_id = c_parent_id comment, c_likes_count = c_likes_count comment,
              c_created_at = c_created_at comment, c_updated_at = c_updated_at comment,
              username = Option.bind profiles pr_username,
              display_name = Option.bind profiles pr_display_name,
              avatar_url = Option.bind profiles pr_avatar_url,
              badge = Option.bind profiles pr_badge,
              is_liked = (c_id comment \<in> set userLikes) \<rparr>)
         commentsData"

definition rootComments :: "comment_info list \<Rightarrow> comment_info list" where
  "rootComments transformed = filter (\<lambda>comment. falsy (c_parent_id comment)) transformed"

definition commentsWithReplies :: "comment_info list \<Rightarrow> comment list" where
  "commentsWithReplies transformed =
     map (\<lambda>comment.
            Comment comment
              (Some (map (\<lambda>reply. Comment reply None)
                       (filter (\<lambda>reply. c_parent_id reply = Some (c_id comment)) transformed))))
         (rootComments transformed)"

section \<open>The relational store\<close>

text \<open>
  The tables the migration creates, the \<open>comments\<close> column it adds to \<open>posts\<close>
  (a nullable \<open>INTEGER\<close>, keyed by the post's id), the ids of \<open>auth.users\<close> and the
  joined \<open>profiles\<close>. Rows are kept in insertion order.
\<close>

record store =
  comments_tbl :: "comment_row list"
  comment_likes_tbl :: "like_row list"
  posts_tbl :: "uuid \<rightharpoonup> int option"
  users_tbl :: "uuid list"
  profiles_tbl :: "uuid \<rightharpoonup> profile"

datatype pg_error =
    invalid_text
  | rls_violation
  | check_violation
  | foreign_key_violation
  | unique_violation
  | numeric_out_of_range
  | no_single_row
  | service_fault

text \<open>An \<open>INTEGER\<close> column holds 32-bit signed values; a value outside raises an error.\<close>

definition int4_ok :: "int \<Rightarrow> bool" where
  "int4_ok n \<longleftrightarrow> - 2147483648 \<le> n \<and> n \<le> 2147483647"

text \<open>
  A \<open>TEXT\<close> value is a sequence of characters: the store refuses a string holding
  U+0000 or an unpaired surrogate, and \<open>length\<close> counts characters, that is code
  units that are not the second half of a pair.
\<close>

definition is_high_surrogate :: "16 word \<Rightarrow> bool" where
  "is_high_surrogate u \<longleftrightarrow> 0xD800 \<le> u \<and> u \<le> 0xDBFF"

definition is_low_surrogate :: "16 word \<Rightarrow> bool" where
  "is_low_surrogate u \<longleftrightarrow> 0xDC00 \<le> u \<and> u \<le> 0xDFFF"

fun utf16_ok :: "js_string \<Rightarrow> bool" where
  "utf16_ok [] = True"
| "utf16_ok [u] = (\<not> is_high_surrogate u \<and> \<not> is_low_surrogate u)"
| "utf16_ok (u # v # us) =
     (if is_high_surrogate u then is_low_surrogate v \<and> utf16_ok us
      else \<not> is_low_surrogate u \<and> utf16_ok (v # us))"

definition pg_text_ok :: "js_string \<Rightarrow> bool" where
  "pg_text_ok s \<longleftrightarrow> utf16_ok s \<and> 0 \<notin> set s"

definition pg_length :: "js_string \<Rightarrow> nat" where
  "pg_length s = length (filter (\<lambda>u. \<not> is_low_surrogate u) s)"

subsection \<open>Triggers\<close>

datatype tg_op = INSERT | DELETE | UPDATE

text \<open>\<open>update_updated_at_column\<close>, fired before every update of a comments row.\<close>

definition update_updated_at_column :: "timestamptz \<Rightarrow> comment_row \<Rightarrow> comment_row" where
  "update_updated_at_column now NEW = NEW\<lparr>c_updated_at := now\<rparr>"

text \<open>
  \<open>UPDATE public.comments SET likes_count = f(likes_count) WHERE id = cid\<close>. A
  \<open>NULL\<close> counter stays \<open>NULL\<close>; a result outside \<open>INTEGER\<close> aborts the statement.
\<close>

definition update_likes_count ::
  "timestamptz \<Rightarrow> (int \<Rightarrow> int) \<Rightarrow> uuid \<Rightarrow> store \<Rightarrow> pg_error + store" where
  "update_likes_count now f cid s =
     (let rows = map (\<lambda>c. if c_id c = cid
                           then update_updated_at_column now
                                  (c\<lparr>c_likes_count := map_option f (c_likes_count c)\<rparr>)
                           else c) (comments_tbl s)
      in if list_all (\<lambda>c. case c_likes_count c of None \<Rightarrow> True | Some n \<Rightarrow> int4_ok n)
              (filter (\<lambda>c. c_id c = cid) rows)
         then Inr (s\<lparr>comments_tbl := rows\<rparr>)
         else Inl numeric_out_of_range)"

text \<open>\<open>update_comment_likes_count\<close>, fired after insert or delete of each like row.\<close>

definition update_comment_likes_count ::
  "timestamptz \<Rightarrow> tg_op \<Rightarrow> like_row \<Rightarrow> store \<Rightarrow> pg_error + store" where
  "update_comment_likes_count now TG_OP r s =
     (case TG_OP of
        INSERT \<Rightarrow> update_likes_count now (\<lambda>n. n + 1) (l_comment_id r) s
      | DELETE \<Rightarrow> update_likes_count now (\<lambda>n. n - 1) (l_comment_id r) s
      | UPDATE \<Rightarrow> Inr s)"

text \<open>\<open>SELECT COUNT(*) FROM public.comments WHERE post_id = pid\<close>.\<close>

definition count_comments :: "uuid \<Rightarrow> store \<Rightarrow> int" where
  "count_comments pid s = int (length (filter (\<lambda>c. c_post_id c = pid) (comments_tbl s)))"

text \<open>\<open>UPDATE public.posts SET comments = n WHERE id = pid\<close>.\<close>

definition set_post_comments :: "uuid \<Rightarrow> int \<Rightarrow> store \<Rightarrow> pg_error + store" where
  "set_post_comments pid n s =
     (if posts_tbl s pid = None then Inr s
      else if int4_ok n then Inr (s\<lparr>posts_tbl := (posts_tbl s)(pid \<mapsto> Some n)\<rparr>)
      else Inl numeric_out_of_range)"

text \<open>\<open>update_post_comments_count\<close>, fired after insert or delete of each comment row.\<close>

definition update_post_comments_count :: "tg_op \<Rightarrow> comment_row \<Rightarrow> store \<Rightarrow> pg_error + store" where
  "update_post_comments_count TG_OP r s =
     (case TG_OP of
        INSERT \<Rightarrow> set_post_comments (c_post_id r) (count_comments (c_post_id r) s) s
      | DELETE \<Rightarrow> set_post_comments (c_post_id r) (count_comments (c_post_id r) s) s
      | UPDATE \<Rightarrow> Inr s)"

text \<open>
  A row-level \<open>AFTER\<close> trigger runs once per affected row when the statement has
  changed the table; the first error aborts the statement.
\<close>

fun fire_each :: "('r \<Rightarrow> store \<Rightarrow> pg_error + store) \<Rightarrow> 'r list \<Rightarrow> store \<Rightarrow> pg_error + store" where
  "fire_each tg [] s = Inr s"
| "fire_each tg (r # rs) s = (case tg r s of Inl e \<Rightarrow> Inl e | Inr s' \<Rightarrow> fire_each tg rs s')"

subsection \<open>Statements\<close>

text \<open>
  Each statement runs under the caller's identity \<open>auth_uid\<close> (the value of
  \<open>auth.uid()\<close> in the row-level policies). \<open>gen_random_uuid()\<close> and \<open>now()\<close> are
  supplied by the caller of the model; the generated id is taken to be new, so the
  primary key never refuses an insert.
\<close>

record comment_payload =
  ins_user_id :: uuid
  ins_post_id :: uuid
  ins_content :: js_string
  ins_parent_id :: "uuid option"

definition insert_comment ::
  "uuid \<Rightarrow> timestamptz \<Rightarrow> uuid option \<Rightarrow> comment_payload \<Rightarrow> store
     \<Rightarrow> pg_error + (comment_row \<times> store)" where
  "insert_comment new_id now auth_uid p s =
     (if \<not> pg_text_ok (ins_content p) then Inl invalid_text
      else if auth_uid \<noteq> Some (ins_user_id p) then Inl rls_violation
      else if 1000 < pg_length (ins_content p) then Inl check_violation
      else if ins_user_id p \<notin> set (users_tbl s) \<or> posts_tbl s (ins_post_id p) = None
              \<or> (case ins_parent_id p of None \<Rightarrow> False
                  | Some q \<Rightarrow> q \<notin> set (map c_id (comments_tbl s)))
      then Inl foreign_key_violation
      else
        let NEW = \<lparr> c_id = new_id, c_user_id = ins_user_id p, c_post_id = ins_post_id p,
                    c_content = ins_content p, c_parent_id = ins_parent_id p,
                    c_likes_count = Some 0, c_created_at = now, c_updated_at = now \<rparr>;
            s1 = s\<lparr>comments_tbl := comments_tbl s @ [NEW]\<rparr>
        in case update_post_comments_count INSERT NEW s1 of
             Inl e \<Rightarrow> Inl e
           | Inr s2 \<Rightarrow> Inr (NEW, s2))"

definition insert_like ::
  "uuid \<Rightarrow> timestamptz \<Rightarrow> uuid option \<Rightarrow> uuid \<Rightarrow> uuid \<Rightarrow> store \<Rightarrow> pg_error + store" where
  "insert_like new_id now auth_uid cid uid s =
     (if auth_uid \<noteq> Some uid then Inl rls_violation
      else if list_ex (\<lambda>l. l_comment_id l = cid \<and> l_user_id l = uid) (comment_likes_tbl s)
      then Inl unique_violation
      else if cid \<notin> set (map c_id (comments_tbl s)) \<or> uid \<notin> set (users_tbl s)
      then Inl foreign_key_violation
      else
        let NEW = \<lparr> l_id = new_id, l_comment_id = cid, l_user_id = uid, l_created_at = now \<rparr>;
            s1 = s\<lparr>comment_likes_tbl := comment_likes_tbl s @ [NEW]\<rparr>
        in update_comment_likes_count now INSERT NEW s1)"

text \<open>
  \<open>DELETE FROM comment_likes WHERE comment_id = cid AND user_id = uid\<close>; the delete
  policy hides the rows of other users from the statement.
\<close>

definition delete_likes ::
  "timestamptz \<Rightarrow> uuid option \<Rightarrow> uuid \<Rightarrow> uuid \<Rightarrow> store \<Rightarrow> pg_error + store" where
  "delete_likes now auth_uid cid uid s =
     (let hit = (\<lambda>l. l_comment_id l = cid \<and> l_user_id l = uid \<and> auth_uid = Some (l_user_id l));
          OLD = filter hit (comment_likes_tbl s);
          s1 = s\<lparr>comment_likes_tbl := filter (\<lambda>l. \<not> hit l) (comment_likes_tbl s)\<rparr>
      in fire_each (update_comment_likes_count now DELETE) OLD s1)"

text \<open>The select of one like row; \<open>.single()\<close> is an error unless exactly one row matches.\<close>

definition select_like_single :: "uuid \<Rightarrow> uuid \<Rightarrow> store \<Rightarrow> pg_error + like_row" where
  "select_like_single cid uid s =
     (case filter (\<lambda>l. l_comment_id l = cid \<and> l_user_id l = uid) (comment_likes_tbl s) of
        [l] \<Rightarrow> Inr l
      | _ \<Rightarrow> Inl no_single_row)"

text \<open>
  The comments of a post with the author's profile joined in, ordered by
  \<open>created_at\<close> ascending (rows of equal time keep their table order).
\<close>

definition select_comments :: "uuid \<Rightarrow> store \<Rightarrow> (comment_row \<times> profile option) list" where
  "select_comments postId s =
     map (\<lambda>c. (c, profiles_tbl s (c_user_id c)))
       (sort_key c_created_at (filter (\<lambda>c. c_post_id c = postId) (comments_tbl s)))"

definition select_user_likes :: "uuid \<Rightarrow> store \<Rightarrow> uuid list" where
  "select_user_likes uid s =
     map l_comment_id (filter (\<lambda>l. l_user_id l = uid) (comment_likes_tbl s))"

text \<open>
  \<open>DELETE FROM comments WHERE id = cid\<close>. The delete policy restricts the statement
  to the caller's own rows; \<open>ON DELETE CASCADE\<close> on \<open>parent_id\<close> then removes every
  descendant, whoever wrote it, and \<open>ON DELETE CASCADE\<close> on \<open>comment_likes.comment_id\<close>
  the likes of all removed comments (their trigger updates a comment that is
  already gone, so it changes nothing). \<open>cascade\<close> adds the children of the
  doomed ids, one generation per round; the table's length bounds the rounds.
\<close>

fun cascade :: "nat \<Rightarrow> uuid list \<Rightarrow> comment_row list \<Rightarrow> uuid list" where
  "cascade 0 ids tbl = ids"
| "cascade (Suc n) ids tbl =
     (let kids = map c_id (filter (\<lambda>c. c_id c \<notin> set ids \<and>
                                        (case c_parent_id c of None \<Rightarrow> False
                                         | Some q \<Rightarrow> q \<in> set ids)) tbl)
      in if kids = [] then ids else cascade n (ids @ kids) tbl)"

definition delete_comment :: "uuid option \<Rightarrow> uuid \<Rightarrow> store \<Rightarrow> pg_error + store" where
  "delete_comment auth_uid cid s =
     (let targets = map c_id (filter (\<lambda>c. c_id c = cid \<and> auth_uid = Some (c_user_id c))
                                (comments_tbl s));
          doomed = cascade (length (comments_tbl s)) targets (comments_tbl s);
          OLD = filter (\<lambda>c. c_id c \<in> set doomed) (comments_tbl s);
          s1 = s\<lparr>comments_tbl := filter (\<lambda>c. c_id c \<notin> set doomed) (comments_tbl s),
                 comment_likes_tbl :=
                   filter (\<lambda>l. l_comment_id l \<notin> set doomed) (comment_likes_tbl s)\<rparr>
      in fire_each (update_post_comments_count DELETE) OLD s1)"

section \<open>The hook \<open>useComments\<close>\<close>

text \<open>
  The hook runs against a world: the store behind the client, the two pieces of
  React state (\<open>comments\<close>, \<open>loading\<close>), and what the user and the developer get to
  see (toasts, console). \<open>calls\<close> is the trace of requests sent to the store.
\<close>

datatype request =
    Select_comments uuid
  | Select_user_likes uuid
  | Insert_comment comment_payload
  | Select_like uuid uuid
  | Delete_like uuid uuid
  | Insert_like uuid uuid

text \<open>What \<open>console.error\<close> is handed: the \<open>error\<close> of a response, or a caught exception.\<close>

datatype js_error = PgError pg_error | Exception

text \<open>
  The toasts of the hook, by their text:
  \<^item> \<open>Login_to_comment\<close>: "Vous devez etre connecte pour commenter";
  \<^item> \<open>Empty_comment\<close>: "Le commentaire ne peut pas etre vide";
  \<^item> \<open>Creation_failed\<close>: "Erreur lors de la creation du commentaire";
  \<^item> \<open>Comment_added\<close>: "Commentaire ajoute avec succes";
  \<^item> \<open>Login_to_like\<close>: "Vous devez etre connecte pour liker un commentaire"
  (the source spells them with their accents).
\<close>

datatype message =
    Login_to_comment
  | Empty_comment
  | Creation_failed
  | Comment_added
  | Login_to_like

datatype toast = Toast_error message | Toast_success message

record world =
  db :: store
  comments :: "comment list"
  loading :: bool
  toasts :: "toast list"
  console :: "(string \<times> js_error) list"
  calls :: "request list"

text \<open>
  What the service does to a call is not decided by the tables alone: the call can be
  refused for a reason outside them (the transport fails, an argument is not the
  text of a UUID), which gives a response carrying \<open>error\<close>, or the awaited promise
  can reject. The environment fixes, for the n-th call of a run, that fault together
  with the values of \<open>gen_random_uuid()\<close> and \<open>now()\<close> the store draws while serving
  it. A call that meets a fault does not change the store.
\<close>

datatype fault = NoFault | Reject | Throw

record call_env =
  ce_fault :: fault
  ce_uuid :: uuid
  ce_now :: timestamptz

type_synonym env = "nat \<Rightarrow> call_env"

datatype 'a reply = Data 'a | Error pg_error | Thrown

definition supabase ::
  "env \<Rightarrow> request \<Rightarrow> (call_env \<Rightarrow> store \<Rightarrow> pg_error + ('a \<times> store)) \<Rightarrow> world
     \<Rightarrow> 'a reply \<times> world" where
  "supabase env rq run w =
     (let e = env (length (calls w));
          w1 = w\<lparr>calls := calls w @ [rq]\<rparr>
      in case ce_fault e of
           Throw \<Rightarrow> (Thrown, w1)
         | Reject \<Rightarrow> (Error service_fault, w1)
         | NoFault \<Rightarrow>
             (case run e (db w1) of
                Inl err \<Rightarrow> (Error err, w1)
              | Inr (x, s') \<Rightarrow> (Data x, w1\<lparr>db := s'\<rparr>)))"

definition console_error :: "string \<Rightarrow> js_error \<Rightarrow> world \<Rightarrow> world" where
  "console_error label err w = w\<lparr>console := console w @ [(label, err)]\<rparr>"

definition toast_error :: "message \<Rightarrow> world \<Rightarrow> world" where
  "toast_error m w = w\<lparr>toasts := toasts w @ [Toast_error m]\<rparr>"

definition toast_success :: "message \<Rightarrow> world \<Rightarrow> world" where
  "toast_success m w = w\<lparr>toasts := toasts w @ [Toast_success m]\<rparr>"

definition setLoading :: "bool \<Rightarrow> world \<Rightarrow> world" where
  "setLoading b w = w\<lparr>loading := b\<rparr>"

definition setComments :: "comment list \<Rightarrow> world \<Rightarrow> world" where
  "setComments cs w = w\<lparr>comments := cs\<rparr>"

text \<open>An async function completes normally with a value, or abruptly by an exception.\<close>

datatype 'a completion = Normal 'a | Abrupt

subsection \<open>The six requests of the hook\<close>

text \<open>
  One definition for each \<open>await supabase.from(...)\<close> expression of the source. The
  session of the client belongs to \<open>user\<close>, so \<open>auth.uid()\<close> is the user's id.
\<close>

definition select_comments_call ::
  "env \<Rightarrow> uuid \<Rightarrow> world \<Rightarrow> (comment_row \<times> profile option) list reply \<times> world" where
  "select_comments_call env postId =
     supabase env (Select_comments postId) (\<lambda>e s. Inr (select_comments postId s, s))"

definition select_user_likes_call :: "env \<Rightarrow> uuid \<Rightarrow> world \<Rightarrow> uuid list reply \<times> world" where
  "select_user_likes_call env uid =
     supabase env (Select_user_likes uid) (\<lambda>e s. Inr (select_user_likes uid s, s))"

definition insert_comment_call ::
  "env \<Rightarrow> uuid \<Rightarrow> comment_payload \<Rightarrow> world \<Rightarrow> comment_row reply \<times> world" where
  "insert_comment_call env uid payload =
     supabase env (Insert_comment payload)
       (\<lambda>e. insert_comment (ce_uuid e) (ce_now e) (Some uid) payload)"

definition select_like_call :: "env \<Rightarrow> uuid \<Rightarrow> uuid \<Rightarrow> world \<Rightarrow> like_row reply \<times> world" where
  "select_like_call env commentId uid =
     supabase env (Select_like commentId uid)
       (\<lambda>e s. map_sum id (\<lambda>l. (l, s)) (select_like_single commentId uid s))"

definition delete_like_call :: "env \<Rightarrow> uuid \<Rightarrow> uuid \<Rightarrow> world \<Rightarrow> unit reply \<times> world" where
  "delete_like_call env commentId uid =
     supabase env (Delete_like commentId uid)
       (\<lambda>e s. map_sum id (Pair ()) (delete_likes (ce_now e) (Some uid) commentId uid s))"

definition insert_like_call :: "env \<Rightarrow> uuid \<Rightarrow> uuid \<Rightarrow> world \<Rightarrow> unit reply \<times> world" where
  "insert_like_call env commentId uid =
     supabase env (Insert_like commentId uid)
       (\<lambda>e s. map_sum id (Pair ())
                 (insert_like (ce_uuid e) (ce_now e) (Some uid) commentId uid s))"

subsection \<open>fetchComments\<close>

text \<open>
  The likes of the current user; without a user no query is sent. A response that
  carries an error has \<open>data = null\<close>, which \<open>likesData?.map(...) || []\<close> turns into
  the empty list.
\<close>

definition fetch_userLikes :: "env \<Rightarrow> uuid option \<Rightarrow> world \<Rightarrow> uuid list completion \<times> world" where
  "fetch_userLikes env user w =
     (case user of
        None \<Rightarrow> (Normal [], w)
      | Some uid \<Rightarrow>
          (case select_user_likes_call env uid w of
             (Thrown, w1) \<Rightarrow> (Abrupt, w1)
           | (Error error, w1) \<Rightarrow> (Normal [], w1)
           | (Data likesData, w1) \<Rightarrow> (Normal likesData, w1)))"

text \<open>The body of the \<open>try\<close> block.\<close>

definition fetchComments_try :: "env \<Rightarrow> uuid \<Rightarrow> uuid option \<Rightarrow> world \<Rightarrow> unit completion \<times> world" where
  "fetchComments_try env postId user w =
     (case select_comments_call env postId w of
        (Thrown, w1) \<Rightarrow> (Abrupt, w1)
      | (Error error, w1) \<Rightarrow>
          (Normal (), console_error ''Error fetching comments:'' (PgError error) w1)
      | (Data commentsData, w1) \<Rightarrow>
          (case fetch_userLikes env user w1 of
             (Abrupt, w2) \<Rightarrow> (Abrupt, w2)
           | (Normal userLikes, w2) \<Rightarrow>
               (Normal (),
                setComments
                  (commentsWithReplies (transformedComments commentsData userLikes)) w2)))"

text \<open>The whole function: the guard on \<open>postId\<close>, then \<open>try\<close>, \<open>catch\<close> and \<open>finally\<close>.\<close>

definition fetchComments :: "env \<Rightarrow> uuid \<Rightarrow> uuid option \<Rightarrow> world \<Rightarrow> unit completion \<times> world" where
  "fetchComments env postId user w =
     (if postId = [] then (Normal (), w)
      else
        (case fetchComments_try env postId user (setLoading True w) of
           (Normal u, w1) \<Rightarrow> (Normal (), setLoading False w1)
         | (Abrupt, w1) \<Rightarrow>
             (Normal (), setLoading False (console_error ''Error:'' Exception w1))))"

text \<open>
  The value of \<open>userLikes\<close> in a fetch whose likes query does not throw: the second
  call of the fetch returns the user's likes, or an error that is read as no likes.
\<close>

definition answered_likes :: "env \<Rightarrow> uuid option \<Rightarrow> world \<Rightarrow> uuid list" where
  "answered_likes env user w =
     (case user of
        None \<Rightarrow> []
      | Some uid \<Rightarrow>
          if ce_fault (env (Suc (length (calls w)))) = NoFault
          then select_user_likes uid (db w) else [])"

subsection \<open>createComment\<close>

definition createComment ::
  "env \<Rightarrow> uuid \<Rightarrow> uuid option \<Rightarrow> js_string \<Rightarrow> uuid option \<Rightarrow> world
     \<Rightarrow> comment_row option completion \<times> world" where
  "createComment env postId user content parentId w =
     (case user of
        None \<Rightarrow> (Normal None, toast_error Login_to_comment w)
      | Some uid \<Rightarrow>
          if trim content = [] then (Normal None, toast_error Empty_comment w)
          else
            (case insert_comment_call env uid
                    \<lparr> ins_user_id = uid, ins_post_id = postId,
                      ins_content = trim content, ins_parent_id = parentId \<rparr> w of
               (Thrown, w1) \<Rightarrow>
                 (Normal None,
                  toast_error Creation_failed (console_error ''Error:'' Exception w1))
             | (Error error, w1) \<Rightarrow>
                 (Normal None,
                  toast_error Creation_failed
                    (console_error ''Error creating comment:'' (PgError error) w1))
             | (Data data, w1) \<Rightarrow>
                 (case fetchComments env postId user (toast_success Comment_added w1) of
                    (Normal u, w2) \<Rightarrow> (Normal (Some data), w2)
                  | (Abrupt, w2) \<Rightarrow>
                      (Normal None,
                       toast_error Creation_failed
                         (console_error ''Error:'' Exception w2)))))"

subsection \<open>likeComment\<close>

text \<open>The refetch that ends a successful toggle, inside the \<open>try\<close> of \<open>likeComment\<close>.\<close>

definition refetch_after_like :: "env \<Rightarrow> uuid \<Rightarrow> uuid option \<Rightarrow> world \<Rightarrow> unit completion \<times> world" where
  "refetch_after_like env postId user w =
     (case fetchComments env postId user w of
        (Normal u, w1) \<Rightarrow> (Normal (), w1)
      | (Abrupt, w1) \<Rightarrow> (Normal (), console_error ''Error:'' Exception w1))"

text \<open>
  Only \<open>data\<close> of the first response is read: a response with an error has
  \<open>existingLike = null\<close> and takes the insert branch.
\<close>

definition likeComment ::
  "env \<Rightarrow> uuid \<Rightarrow> uuid option \<Rightarrow> uuid \<Rightarrow> world \<Rightarrow> unit completion \<times> world" where
  "likeComment env postId user commentId w =
     (case user of
        None \<Rightarrow> (Normal (), toast_error Login_to_like w)
      | Some uid \<Rightarrow>
          (case select_like_call env commentId uid w of
             (Thrown, w1) \<Rightarrow> (Normal (), console_error ''Error:'' Exception w1)
           | (Data existingLike, w1) \<Rightarrow>
               (case delete_like_call env commentId uid w1 of
                  (Thrown, w2) \<Rightarrow> (Normal (), console_error ''Error:'' Exception w2)
                | (Error error, w2) \<Rightarrow>
                    (Normal (), console_error ''Error unliking comment:'' (PgError error) w2)
                | (Data u, w2) \<Rightarrow> refetch_after_like env postId user w2)
           | (Error error, w1) \<Rightarrow>
               (case insert_like_call env commentId uid w1 of
                  (Thrown, w2) \<Rightarrow> (Normal (), console_error ''Error:'' Exception w2)
                | (Error error, w2) \<Rightarrow>
                    (Normal (), console_error ''Error liking comment:'' (PgError error) w2)
                | (Data u, w2) \<Rightarrow> refetch_after_like env postId user w2)))"

section \<open>Statements on the comments table\<close>

text \<open>
  The hook never deletes a comment; inserts and deletes reach the table as
  statements of any client. A statement that is refused leaves the store as it was.
\<close>

datatype comment_stmt =
    Insert_stmt uuid timestamptz "uuid option" comment_payload
  | Delete_stmt "uuid option" uuid

definition exec_stmt :: "comment_stmt \<Rightarrow> store \<Rightarrow> store" where
  "exec_stmt st s =
     (case st of
        Insert_stmt new_id now auth_uid p \<Rightarrow>
          (case insert_comment new_id now auth_uid p s of
             Inl e \<Rightarrow> s
           | Inr (r, s') \<Rightarrow> s')
      | Delete_stmt auth_uid cid \<Rightarrow>
          (case delete_comment auth_uid cid s of
             Inl e \<Rightarrow> s
           | Inr s' \<Rightarrow> s'))"

fun exec_all :: "comment_stmt list \<Rightarrow> store \<Rightarrow> store" where
  "exec_all [] s = s"
| "exec_all (st # sts) s = exec_all sts (exec_stmt st s)"

text \<open>The comment rows of a post, and the counter on the post agreeing with them.\<close>

definition rows_of_post :: "uuid \<Rightarrow> store \<Rightarrow> comment_row list" where
  "rows_of_post pid s = filter (\<lambda>c. c_post_id c = pid) (comments_tbl s)"

definition counter_exact :: "uuid \<Rightarrow> store \<Rightarrow> bool" where
  "counter_exact pid s \<longleftrightarrow> posts_tbl s pid = Some (Some (int (length (rows_of_post pid s))))"

text \<open>Some statement of the sequence inserted or deleted a comment row of the post.\<close>

fun touched :: "uuid \<Rightarrow> comment_stmt list \<Rightarrow> store \<Rightarrow> bool" where
  "touched pid [] s = False"
| "touched pid (st # sts) s =
     (rows_of_post pid (exec_stmt st s) \<noteq> rows_of_post pid s \<or> touched pid sts (exec_stmt st s))"

section \<open>Likes and their counter\<close>

definition liked :: "store \<Rightarrow> uuid \<Rightarrow> uuid \<Rightarrow> bool" where
  "liked s cid uid \<longleftrightarrow>
     list_ex (\<lambda>l. l_comment_id l = cid \<and> l_user_id l = uid) (comment_likes_tbl s)"

definition count_likes :: "uuid \<Rightarrow> store \<Rightarrow> int" where
  "count_likes cid s = int (length (filter (\<lambda>l. l_comment_id l = cid) (comment_likes_tbl s)))"

definition likes_count_exact :: "uuid \<Rightarrow> store \<Rightarrow> bool" where
  "likes_count_exact cid s \<longleftrightarrow>
     list_all (\<lambda>c. c_likes_count c = Some (count_likes cid s))
       (filter (\<lambda>c. c_id c = cid) (comments_tbl s))"

text \<open>
  What the schema guarantees of every state: a like row references an existing
  comment and an existing user (its two foreign keys), and \<open>likes_count\<close> holds an
  \<open>INTEGER\<close>.
\<close>

definition likes_schema_ok :: "store \<Rightarrow> bool" where
  "likes_schema_ok s \<longleftrightarrow>
     list_all (\<lambda>l. l_comment_id l \<in> set (map c_id (comments_tbl s))
                  \<and> l_user_id l \<in> set (users_tbl s)) (comment_likes_tbl s)
     \<and> list_all (\<lambda>c. case c_likes_count c of None \<Rightarrow> True | Some n \<Rightarrow> int4_ok n)
         (comments_tbl s)"

text \<open>The effect of one toggle on the store when the service answers both calls.\<close>

definition toggle_like :: "call_env \<Rightarrow> uuid \<Rightarrow> uuid \<Rightarrow> store \<Rightarrow> store" where
  "toggle_like e cid uid s =
     (case select_like_single cid uid s of
        Inr existingLike \<Rightarrow>
          (case delete_likes (ce_now e) (Some uid) cid uid s of Inl err \<Rightarrow> s | Inr s' \<Rightarrow> s')
      | Inl err \<Rightarrow>
          (case insert_like (ce_uuid e) (ce_now e) (Some uid) cid uid s of
             Inl err \<Rightarrow> s
           | Inr s' \<Rightarrow> s'))"

section \<open>The post card\<close>

text \<open>
  What \<open>PredictionCard\<close> returns, as a tree of elements: each element keeps its tag
  and the event handlers bound on it; texts, icons without handlers, class names and
  styles are left out. \<open>Drawer\<close>, \<open>Dialog\<close> and \<open>CommentsBottomSheet\<close> open on a click
  on their trigger, which is recorded as a handler of the trigger.
\<close>

datatype handler =
    HandleProfileClick
  | HandleMenuAction string
  | HandleShare
  | HandleLike
  | HandleVideoClick
  | HandleProgressClick
  | ToggleMute
  | ToggleFullscreen
  | ShowControls
  | ShowControlsTemporarily
  | OpenDrawer
  | OpenDialog
  | OpenComments

datatype element = Element string "handler list" "element list"

fun handlers_of :: "element \<Rightarrow> handler list" where
  "handlers_of (Element tag hs kids) = hs @ concat (map handlers_of kids)"

text \<open>The fields of \<open>prediction\<close> and the state variables that decide which elements exist.\<close>

record card_props =
  video :: "string option"
  image :: "string option"

record card_state =
  isPlaying :: bool
  isBlocked :: bool

text \<open>The menu of the drawer: six buttons.\<close>

definition menu_buttons :: "element list" where
  "menu_buttons =
     [Element ''button'' [HandleMenuAction ''follow''] [],
      Element ''button'' [HandleMenuAction ''save''] [],
      Element ''button'' [HandleShare] [],
      Element ''button'' [HandleMenuAction ''report''] [],
      Element ''button'' [HandleMenuAction ''hide''] [],
      Element ''button'' [HandleMenuAction ''block''] []]"

definition user_info :: "(element \<Rightarrow> element \<Rightarrow> element) \<Rightarrow> element" where
  "user_info ProtectedComponent =
     Element ''div'' []
       [Element ''div'' []
          [Element ''div'' [HandleProfileClick] [Element ''img'' [] [], Element ''div'' [] []],
           Element ''div'' []
             [Element ''div'' [] [Element ''span'' [HandleProfileClick] [], Element ''span'' [] []],
              Element ''div'' [] []]],
        ProtectedComponent (Element ''button'' [] [])
          (Element ''Drawer'' []
             [Element ''DrawerTrigger'' [OpenDrawer] [Element ''button'' [] []],
              Element ''DrawerContent'' []
                [Element ''DrawerHeader'' [] [], Element ''div'' [] menu_buttons]])]"

definition match_info :: "(element \<Rightarrow> element \<Rightarrow> element) \<Rightarrow> element" where
  "match_info ProtectedComponent =
     Element ''div'' []
       [Element ''div'' [] [],
        Element ''div'' []
          [Element ''div'' [] [],
           ProtectedComponent (Element ''Button'' [] [])
             (Element ''Button'' [HandleMenuAction ''follow''] [])],
        Element ''div'' [] []]"

definition video_player :: "card_state \<Rightarrow> element" where
  "video_player st =
     Element ''div'' [HandleVideoClick, ShowControls, ShowControlsTemporarily]
       [Element ''video'' [] [Element ''source'' [] []],
        Element ''div'' []
          ((if \<not> isPlaying st then [Element ''div'' [] []] else []) @
           [Element ''div'' []
              [Element ''div'' [HandleProgressClick] [Element ''div'' [] []],
               Element ''div'' []
                 [Element ''div'' [] [Element ''button'' [ToggleMute] [], Element ''span'' [] []],
                  Element ''button'' [ToggleFullscreen] []]]])]"

definition media_content :: "card_props \<Rightarrow> card_state \<Rightarrow> element list" where
  "media_content prediction st =
     (if image prediction \<noteq> None \<and> image prediction \<noteq> Some [] \<or>
         video prediction \<noteq> None \<and> video prediction \<noteq> Some []
      then [Element ''div'' []
              (if video prediction \<noteq> None \<and> video prediction \<noteq> Some []
               then [video_player st]
               else [Element ''img'' [] []])]
      else [])"

definition actions :: "(element \<Rightarrow> element \<Rightarrow> element) \<Rightarrow> element" where
  "actions ProtectedComponent =
     Element ''div'' []
       [Element ''div'' []
          [ProtectedComponent (Element ''button'' [] [])
             (Element ''button'' [HandleLike] []),
           ProtectedComponent (Element ''button'' [] [])
             (Element ''CommentsBottomSheet'' [OpenComments] [Element ''button'' [] []]),
           ProtectedComponent (Element ''button'' [] [])
             (Element ''button'' [HandleShare] [])],
        ProtectedComponent (Element ''Button'' [] [])
          (Element ''Dialog'' []
             [Element ''DialogTrigger'' [OpenDialog] [Element ''Button'' [] []],
              Element ''DialogContent'' []
                [Element ''DialogHeader'' [] [], Element ''PredictionModal'' [] []]])]"

text \<open>
  The component. \<open>ProtectedComponent\<close> is written in another file: it is a parameter
  that maps its \<open>fallback\<close> and its child to what it renders.
\<close>

definition PredictionCard ::
  "(element \<Rightarrow> element \<Rightarrow> element) \<Rightarrow> card_props \<Rightarrow> card_state \<Rightarrow> element option" where
  "PredictionCard ProtectedComponent prediction st =
     (if isBlocked st then None
      else Some (Element ''Card'' []
                   [Element ''CardContent'' []
                      ([user_info ProtectedComponent, match_info ProtectedComponent] @
                       media_content prediction st @
                       [Element ''div'' [] [Element ''p'' [] []],
                        actions ProtectedComponent])]))"

text \<open>The handlers a user can reach in what the component returned.\<close>

definition exposed_handlers :: "element option \<Rightarrow> handler list" where
  "exposed_handlers r = (case r of None \<Rightarrow> [] | Some e \<Rightarrow> handlers_of e)"

section \<open>A small store for the examples\<close>

definition demo_comment :: "uuid \<Rightarrow> uuid option \<Rightarrow> timestamptz \<Rightarrow> comment_row" where
  "demo_comment i parent t =
     \<lparr> c_id = i, c_user_id = ''user-1'', c_post_id = ''post-1'', c_content = [0x6F, 0x6B],
       c_parent_id = parent, c_likes_count = Some 0, c_created_at = t, c_updated_at = t \<rparr>"

text \<open>A root, a reply to it, and a reply to that reply, inserted out of time order.\<close>

definition demo_store :: store where
  "demo_store =
     \<lparr> comments_tbl = [demo_comment ''c3'' (Some ''c2'') 30, demo_comment ''c1'' None 10,
                       demo_comment ''c2'' (Some ''c1'') 20],
       comment_likes_tbl = [],
       posts_tbl = [''post-1'' \<mapsto> Some 3],
       users_tbl = [''user-1''],
       profiles_tbl = Map.empty \<rparr>"

definition demo_world :: world where
  "demo_world =
     \<lparr> db = demo_store, comments = [], loading = False, toasts = [], console = [],
       calls = [] \<rparr>"

text \<open>The same post after \<open>user-1\<close> liked the root comment.\<close>

definition demo_like :: like_row where
  "demo_like = \<lparr> l_id = ''k1'', l_comment_id = ''c1'', l_user_id = ''user-1'', l_created_at = 35 \<rparr>"

definition liked_store :: store where
  "liked_store =
     demo_store\<lparr>comments_tbl := [(demo_comment ''c1'' None 10)\<lparr>c_likes_count := Some 1\<rparr>],
       comment_likes_tbl := [demo_like]\<rparr>"

definition liked_world :: world where
  "liked_world = demo_world\<lparr>db := liked_store\<rparr>"

text \<open>
  The post with a counter that is out of date, and two statements on it: an insert
  of a fourth comment, and the delete of the root, which cascades to both replies.
\<close>

definition stale_store :: store where
  "stale_store = demo_store\<lparr>posts_tbl := [''post-1'' \<mapsto> Some 7]\<rparr>"

definition demo_insert :: comment_stmt where
  "demo_insert =
     Insert_stmt ''c4'' 50 (Some ''user-1'')
       \<lparr> ins_user_id = ''user-1'', ins_post_id = ''post-1'', ins_content = [0x6F, 0x6B],
         ins_parent_id = None \<rparr>"

definition demo_delete :: comment_stmt where
  "demo_delete = Delete_stmt (Some ''user-1'') ''c1''"

text \<open>An environment whose n-th call meets the given fault, all others none.\<close>

definition fault_at :: "nat \<Rightarrow> fault \<Rightarrow> env" where
  "fault_at n f = (\<lambda>k. \<lparr> ce_fault = (if k = n then f else NoFault),
                          ce_uuid = ''fresh'', ce_now = 40 \<rparr>)"

definition quiet_env :: env where
  "quiet_env = (\<lambda>k. \<lparr> ce_fault = NoFault, ce_uuid = ''fresh'', ce_now = 40 \<rparr>)"

section \<open>Properties of the hook\<close>

subsection \<open>Requests\<close>

lemma select_comments_call_eq:
  "select_comments_call env postId w =
     (case ce_fault (env (length (calls w))) of
        Throw \<Rightarrow> Thrown
      | Reject \<Rightarrow> Error service_fault
      | NoFault \<Rightarrow> Data (select_comments postId (db w)),
      w\<lparr>calls := calls w @ [Select_comments postId]\<rparr>)"
  by (simp add: select_comments_call_def supabase_def Let_def split: fault.splits)

text \<open>
  C5. An authenticated call of \<open>createComment\<close> whose content trims to the empty
  string returns \<open>null\<close>; the world it leaves differs from the one it found by one
  toast, the validation error: no request was sent (\<open>calls\<close> and \<open>db\<close> are as before)
  and the \<open>comments\<close> state is unchanged.
\<close>

theorem createComment_blank_content:
  assumes "trim content = []"
  shows "createComment env postId (Some uid) content parentId w
           = (Normal None, w\<lparr>toasts := toasts w @ [Toast_error Empty_comment]\<rparr>)"
  using assms by (simp add: createComment_def toast_error_def)

theorem createComment_blank_content_witness:
  "trim [0x20, 0x20, 0x20] = []
   \<and> createComment quiet_env ''post-1'' (Some ''user-1'') [0x20, 0x20, 0x20] None demo_world
       = (Normal None, demo_world\<lparr>toasts := [Toast_error Empty_comment]\<rparr>)"
proof -
  have blank: "trim [0x20, 0x20, 0x20] = []"
    by (simp add: trim_def is_js_whitespace_def)
  from createComment_blank_content [OF blank, of quiet_env "''post-1''" "''user-1''" None demo_world]
  show ?thesis using blank by (simp add: demo_world_def)
qed

text \<open>
  C6. Without a user, \<open>createComment\<close> and \<open>likeComment\<close> each add one toast, the
  request to log in, and nothing else: the trace of requests, the store and the
  \<open>comments\<close> state are those of the world before the call.
\<close>

theorem unauthenticated_calls_stop:
  "createComment env postId None content parentId w
     = (Normal None, w\<lparr>toasts := toasts w @ [Toast_error Login_to_comment]\<rparr>)
   \<and> likeComment env postId None commentId w
     = (Normal (), w\<lparr>toasts := toasts w @ [Toast_error Login_to_like]\<rparr>)"
  by (simp add: createComment_def likeComment_def toast_error_def)

theorem unauthenticated_calls_stop_witness:
  "createComment quiet_env ''post-1'' None [0x6F, 0x6B] None demo_world
     = (Normal None, demo_world\<lparr>toasts := [Toast_error Login_to_comment]\<rparr>)
   \<and> likeComment quiet_env ''post-1'' None ''c1'' demo_world
     = (Normal (), demo_world\<lparr>toasts := [Toast_error Login_to_like]\<rparr>)"
  using unauthenticated_calls_stop [of quiet_env "''post-1''" "[0x6F, 0x6B]" None demo_world "''c1''"]
  by (simp add: demo_world_def)

text \<open>
  C7. When the comments query of \<open>fetchComments\<close> fails (the response carries an
  error, or the awaited call throws), the function completes normally; it has sent
  that one request, logged one console entry and left \<open>loading\<close> false. The
  \<open>comments\<close> state, the store and the toasts are as before.
\<close>

theorem fetchComments_query_failure:
  assumes "postId \<noteq> []" and "ce_fault (env (length (calls w))) \<noteq> NoFault"
  shows "fetchComments env postId user w =
           (Normal (),
            w\<lparr>loading := False,
              calls := calls w @ [Select_comments postId],
              console := console w @
                [if ce_fault (env (length (calls w))) = Reject
                 then (''Error fetching comments:'', PgError service_fault)
                 else (''Error:'', Exception)]\<rparr>)"
  using assms
  by (cases "ce_fault (env (length (calls w)))")
     (simp_all add: fetchComments_def fetchComments_try_def select_comments_call_eq
        setLoading_def console_error_def)

theorem fetchComments_query_failure_witness:
  "''post-1'' \<noteq> [] \<and> ce_fault (fault_at 0 Reject (length (calls demo_world))) \<noteq> NoFault
   \<and> fetchComments (fault_at 0 Reject) ''post-1'' (Some ''user-1'') demo_world =
       (Normal (),
        demo_world\<lparr>loading := False, calls := [Select_comments ''post-1''],
          console := [(''Error fetching comments:'', PgError service_fault)]\<rparr>)"
  using fetchComments_query_failure
    [where postId = "''post-1''" and env = "fault_at 0 Reject" and w = demo_world
       and user = "Some ''user-1''"]
  by (simp add: fault_at_def demo_world_def)

lemma select_user_likes_call_eq:
  "select_user_likes_call env uid w =
     (case ce_fault (env (length (calls w))) of
        Throw \<Rightarrow> Thrown
      | Reject \<Rightarrow> Error service_fault
      | NoFault \<Rightarrow> Data (select_user_likes uid (db w)),
      w\<lparr>calls := calls w @ [Select_user_likes uid]\<rparr>)"
  by (simp add: select_user_likes_call_def supabase_def Let_def split: fault.splits)

lemma select_like_call_eq:
  "select_like_call env cid uid w =
     (case ce_fault (env (length (calls w))) of
        Throw \<Rightarrow> Thrown
      | Reject \<Rightarrow> Error service_fault
      | NoFault \<Rightarrow> (case select_like_single cid uid (db w) of
                      Inl err \<Rightarrow> Error err
                    | Inr l \<Rightarrow> Data l),
      w\<lparr>calls := calls w @ [Select_like cid uid]\<rparr>)"
  by (simp add: select_like_call_def supabase_def Let_def split: fault.splits sum.splits)

lemma insert_comment_call_eq:
  "insert_comment_call env uid payload w =
     (case ce_fault (env (length (calls w))) of
        Throw \<Rightarrow> (Thrown, w\<lparr>calls := calls w @ [Insert_comment payload]\<rparr>)
      | Reject \<Rightarrow> (Error service_fault, w\<lparr>calls := calls w @ [Insert_comment payload]\<rparr>)
      | NoFault \<Rightarrow>
          (case insert_comment (ce_uuid (env (length (calls w)))) (ce_now (env (length (calls w))))
                  (Some uid) payload (db w) of
             Inl err \<Rightarrow> (Error err, w\<lparr>calls := calls w @ [Insert_comment payload]\<rparr>)
           | Inr (row, s') \<Rightarrow>
               (Data row, w\<lparr>calls := calls w @ [Insert_comment payload], db := s'\<rparr>)))"
  by (simp add: insert_comment_call_def supabase_def Let_def split: fault.splits sum.splits)

lemma insert_like_call_eq:
  "insert_like_call env cid uid w =
     (case ce_fault (env (length (calls w))) of
        Throw \<Rightarrow> (Thrown, w\<lparr>calls := calls w @ [Insert_like cid uid]\<rparr>)
      | Reject \<Rightarrow> (Error service_fault, w\<lparr>calls := calls w @ [Insert_like cid uid]\<rparr>)
      | NoFault \<Rightarrow>
          (case insert_like (ce_uuid (env (length (calls w)))) (ce_now (env (length (calls w))))
                  (Some uid) cid uid (db w) of
             Inl err \<Rightarrow> (Error err, w\<lparr>calls := calls w @ [Insert_like cid uid]\<rparr>)
           | Inr s' \<Rightarrow> (Data (), w\<lparr>calls := calls w @ [Insert_like cid uid], db := s'\<rparr>)))"
  by (simp add: insert_like_call_def supabase_def Let_def split: fault.splits sum.splits)

lemma delete_like_call_eq:
  "delete_like_call env cid uid w =
     (case ce_fault (env (length (calls w))) of
        Throw \<Rightarrow> (Thrown, w\<lparr>calls := calls w @ [Delete_like cid uid]\<rparr>)
      | Reject \<Rightarrow> (Error service_fault, w\<lparr>calls := calls w @ [Delete_like cid uid]\<rparr>)
      | NoFault \<Rightarrow>
          (case delete_likes (ce_now (env (length (calls w)))) (Some uid) cid uid (db w) of
             Inl err \<Rightarrow> (Error err, w\<lparr>calls := calls w @ [Delete_like cid uid]\<rparr>)
           | Inr s' \<Rightarrow> (Data (), w\<lparr>calls := calls w @ [Delete_like cid uid], db := s'\<rparr>)))"
  by (simp add: delete_like_call_def supabase_def Let_def split: fault.splits sum.splits)

subsection \<open>fetchComments never throws and never writes to the store\<close>

lemma fetch_userLikes_db: "db (snd (fetch_userLikes env user w)) = db w"
  by (simp add: fetch_userLikes_def select_user_likes_call_eq split: option.splits fault.splits)

lemma fetchComments_try_db: "db (snd (fetchComments_try env postId user w)) = db w"
proof (cases "ce_fault (env (length (calls w)))")
  case NoFault
  have "db (snd (fetch_userLikes env user (w\<lparr>calls := calls w @ [Select_comments postId]\<rparr>))) = db w"
    by (simp add: fetch_userLikes_db)
  with NoFault show ?thesis
    by (auto simp: fetchComments_try_def select_comments_call_eq setComments_def
          split: prod.splits completion.splits)
qed (simp_all add: fetchComments_try_def select_comments_call_eq console_error_def)

lemma fetchComments_db: "db (snd (fetchComments env postId user w)) = db w"
proof -
  have "db (snd (fetchComments_try env postId user (setLoading True w))) = db w"
    by (simp add: fetchComments_try_db) (simp add: setLoading_def)
  then show ?thesis
    by (auto simp: fetchComments_def setLoading_def console_error_def
          split: prod.splits completion.splits)
qed

lemma fetchComments_normal: "fst (fetchComments env postId user w) = Normal ()"
  by (simp add: fetchComments_def split: prod.splits completion.splits)

lemma fetchComments_completes: "fetchComments env postId user w = (c, w') \<Longrightarrow> c = Normal ()"
  using fetchComments_normal [of env postId user w] by simp

subsection \<open>Inserting a comment\<close>

lemma set_post_comments_tbl:
  "set_post_comments pid n s = Inr s' \<Longrightarrow>
     comments_tbl s' = comments_tbl s \<and> comment_likes_tbl s' = comment_likes_tbl s
     \<and> users_tbl s' = users_tbl s"
  by (auto simp: set_post_comments_def split: if_splits)

lemma update_post_comments_count_tbl:
  "update_post_comments_count TG_OP r s = Inr s' \<Longrightarrow>
     comments_tbl s' = comments_tbl s \<and> comment_likes_tbl s' = comment_likes_tbl s
     \<and> users_tbl s' = users_tbl s"
  by (cases TG_OP) (auto simp: update_post_comments_count_def dest: set_post_comments_tbl)

lemma insert_comment_row:
  assumes "insert_comment new_id now auth_uid p s = Inr (row, s')"
  shows "row = \<lparr> c_id = new_id, c_user_id = ins_user_id p, c_post_id = ins_post_id p,
                 c_content = ins_content p, c_parent_id = ins_parent_id p,
                 c_likes_count = Some 0, c_created_at = now, c_updated_at = now \<rparr>"
    and "comments_tbl s' = comments_tbl s @ [row]"
    and "comment_likes_tbl s' = comment_likes_tbl s"
  using assms
  by (auto simp: insert_comment_def Let_def split: if_splits sum.splits
           dest!: update_post_comments_count_tbl)

text \<open>
  C10. When \<open>createComment\<close> succeeds (it returns a row), the returned row is the one
  row appended to the comments table, and its content is the trimmed input.
\<close>

theorem createComment_stores_trimmed:
  assumes "createComment env postId user content parentId w = (Normal (Some row), w')"
  shows "c_content row = trim content \<and> comments_tbl (db w') = comments_tbl (db w) @ [row]"
proof -
  from assms obtain uid where user: "user = Some uid"
    by (cases user) (auto simp: createComment_def)
  let ?p = "\<lparr> ins_user_id = uid, ins_post_id = postId, ins_content = trim content,
               ins_parent_id = parentId \<rparr>"
  let ?e = "env (length (calls w))"
  from assms user have nonblank: "trim content \<noteq> []"
    by (auto simp: createComment_def split: if_splits)
  obtain r w1 where call: "insert_comment_call env uid ?p w = (r, w1)"
    by (cases "insert_comment_call env uid ?p w")
  obtain c w2 where fetch: "fetchComments env postId user (toast_success Comment_added w1) = (c, w2)"
    by (cases "fetchComments env postId user (toast_success Comment_added w1)")
  from assms user nonblank call fetch have r: "r = Data row" and w': "w' = w2"
    by (auto simp: createComment_def split: reply.splits completion.splits)
  from call r obtain s' where
    ins: "insert_comment (ce_uuid ?e) (ce_now ?e) (Some uid) ?p (db w) = Inr (row, s')"
    and w1: "db w1 = s'"
    by (auto simp: insert_comment_call_eq split: fault.splits sum.splits)
  from fetchComments_db [of env postId user "toast_success Comment_added w1"] fetch
  have "db w2 = db w1" by (simp add: toast_success_def)
  with insert_comment_row(1,2) [OF ins] w1 w' show ?thesis by simp
qed

theorem createComment_stores_trimmed_witness:
  "createComment quiet_env ''post-1'' (Some ''user-1'') [0x20, 0x6F, 0x6B, 0x0A] None demo_world
     = (Normal (Some (demo_comment ''fresh'' None 40)),
        snd (createComment quiet_env ''post-1'' (Some ''user-1'') [0x20, 0x6F, 0x6B, 0x0A] None demo_world))
   \<and> c_content (demo_comment ''fresh'' None 40) = trim [0x20, 0x6F, 0x6B, 0x0A]
   \<and> c_content (demo_comment ''fresh'' None 40) = [0x6F, 0x6B]
   \<and> comments_tbl (db (snd (createComment quiet_env ''post-1'' (Some ''user-1'')
                               [0x20, 0x6F, 0x6B, 0x0A] None demo_world)))
       = comments_tbl (db demo_world) @ [demo_comment ''fresh'' None 40]"
proof -
  have t: "trim [0x20, 0x6F, 0x6B, 0x0A] = [0x6F, 0x6B]"
    by (simp add: trim_def is_js_whitespace_def)
  have ok: "pg_text_ok [0x6F, 0x6B]" "pg_length [0x6F, 0x6B] = 2"
    by (simp_all add: pg_text_ok_def pg_length_def is_high_surrogate_def is_low_surrogate_def)
  have ins: "insert_comment ''fresh'' 40 (Some ''user-1'')
               \<lparr> ins_user_id = ''user-1'', ins_post_id = ''post-1'', ins_content = [0x6F, 0x6B],
                 ins_parent_id = None \<rparr> demo_store
             = Inr (demo_comment ''fresh'' None 40,
                    demo_store\<lparr>comments_tbl := comments_tbl demo_store @ [demo_comment ''fresh'' None 40],
                      posts_tbl := (posts_tbl demo_store)(''post-1'' \<mapsto> Some 4)\<rparr>)"
    by (simp add: insert_comment_def ok Let_def demo_store_def demo_comment_def
          update_post_comments_count_def set_post_comments_def count_comments_def int4_ok_def)
  have fst: "fst (createComment quiet_env ''post-1'' (Some ''user-1'') [0x20, 0x6F, 0x6B, 0x0A] None demo_world)
       = Normal (Some (demo_comment ''fresh'' None 40))"
    by (auto simp: createComment_def t insert_comment_call_eq quiet_env_def demo_world_def ins
          split: prod.splits completion.splits dest: fetchComments_completes)
  then have eq: "createComment quiet_env ''post-1'' (Some ''user-1'') [0x20, 0x6F, 0x6B, 0x0A] None demo_world
     = (Normal (Some (demo_comment ''fresh'' None 40)),
        snd (createComment quiet_env ''post-1'' (Some ''user-1'') [0x20, 0x6F, 0x6B, 0x0A] None demo_world))"
    by (metis prod.collapse)
  from createComment_stores_trimmed [OF eq] eq t show ?thesis
    by (simp add: demo_comment_def)
qed

subsection \<open>Failed writes\<close>

text \<open>
  C8, as the code has it. A rejected comment insert makes \<open>createComment\<close> log the
  error, show the toast \<open>Creation_failed\<close> and return \<open>null\<close>. A rejected like insert
  or like delete makes \<open>likeComment\<close> log the error and return; it shows no toast.
  In all three cases the function stops there: besides the trace of requests, the
  console and (for \<open>createComment\<close>) the toasts, the world is unchanged, the store
  and the \<open>comments\<close> state included.
\<close>

theorem rejected_write_is_logged:
  "(trim content \<noteq> [] \<and>
    fst (insert_comment_call env uid
           \<lparr> ins_user_id = uid, ins_post_id = postId, ins_content = trim content,
             ins_parent_id = parentId \<rparr> w) = Error err
    \<longrightarrow> createComment env postId (Some uid) content parentId w =
          (Normal None,
           w\<lparr>calls := calls w @ [Insert_comment
                  \<lparr> ins_user_id = uid, ins_post_id = postId, ins_content = trim content,
                    ins_parent_id = parentId \<rparr>],
             console := console w @ [(''Error creating comment:'', PgError err)],
             toasts := toasts w @ [Toast_error Creation_failed]\<rparr>))
   \<and> (fst (select_like_call env cid uid w) = Error err0 \<and>
      fst (insert_like_call env cid uid (snd (select_like_call env cid uid w))) = Error err
      \<longrightarrow> likeComment env postId (Some uid) cid w =
            (Normal (),
             w\<lparr>calls := calls w @ [Select_like cid uid, Insert_like cid uid],
               console := console w @ [(''Error liking comment:'', PgError err)]\<rparr>))
   \<and> (fst (select_like_call env cid uid w) = Data l \<and>
      fst (delete_like_call env cid uid (snd (select_like_call env cid uid w))) = Error err
      \<longrightarrow> likeComment env postId (Some uid) cid w =
            (Normal (),
             w\<lparr>calls := calls w @ [Select_like cid uid, Delete_like cid uid],
               console := console w @ [(''Error unliking comment:'', PgError err)]\<rparr>))"
proof (intro conjI impI; elim conjE)
  let ?p = "\<lparr> ins_user_id = uid, ins_post_id = postId, ins_content = trim content,
               ins_parent_id = parentId \<rparr>"
  assume "trim content \<noteq> []" and "fst (insert_comment_call env uid ?p w) = Error err"
  moreover from this(2) have "insert_comment_call env uid ?p w
      = (Error err, w\<lparr>calls := calls w @ [Insert_comment ?p]\<rparr>)"
    by (auto simp: insert_comment_call_eq split: fault.splits sum.splits)
  ultimately show "createComment env postId (Some uid) content parentId w =
          (Normal None,
           w\<lparr>calls := calls w @ [Insert_comment ?p],
             console := console w @ [(''Error creating comment:'', PgError err)],
             toasts := toasts w @ [Toast_error Creation_failed]\<rparr>)"
    by (simp add: createComment_def toast_error_def console_error_def)
next
  let ?w1 = "w\<lparr>calls := calls w @ [Select_like cid uid]\<rparr>"
  assume sel: "fst (select_like_call env cid uid w) = Error err0"
    and ins: "fst (insert_like_call env cid uid (snd (select_like_call env cid uid w))) = Error err"
  from sel have 1: "select_like_call env cid uid w = (Error err0, ?w1)"
    by (simp add: select_like_call_eq)
  from ins 1 have "insert_like_call env cid uid ?w1
      = (Error err, ?w1\<lparr>calls := calls ?w1 @ [Insert_like cid uid]\<rparr>)"
    by (auto simp: insert_like_call_eq split: fault.splits sum.splits)
  with 1 show "likeComment env postId (Some uid) cid w =
            (Normal (),
             w\<lparr>calls := calls w @ [Select_like cid uid, Insert_like cid uid],
               console := console w @ [(''Error liking comment:'', PgError err)]\<rparr>)"
    by (simp add: likeComment_def console_error_def)
next
  let ?w1 = "w\<lparr>calls := calls w @ [Select_like cid uid]\<rparr>"
  assume sel: "fst (select_like_call env cid uid w) = Data l"
    and del: "fst (delete_like_call env cid uid (snd (select_like_call env cid uid w))) = Error err"
  from sel have 1: "select_like_call env cid uid w = (Data l, ?w1)"
    by (simp add: select_like_call_eq)
  from del 1 have "delete_like_call env cid uid ?w1
      = (Error err, ?w1\<lparr>calls := calls ?w1 @ [Delete_like cid uid]\<rparr>)"
    by (auto simp: delete_like_call_eq split: fault.splits sum.splits)
  with 1 show "likeComment env postId (Some uid) cid w =
            (Normal (),
             w\<lparr>calls := calls w @ [Select_like cid uid, Delete_like cid uid],
               console := console w @ [(''Error unliking comment:'', PgError err)]\<rparr>)"
    by (simp add: likeComment_def console_error_def)
qed

lemma demo_no_like:
  "select_like_single ''c9'' ''user-1'' demo_store = Inl no_single_row"
  "insert_like ''fresh'' 40 (Some ''user-1'') ''c9'' ''user-1'' demo_store = Inl foreign_key_violation"
  by (simp_all add: select_like_single_def insert_like_def demo_store_def demo_comment_def)

theorem rejected_write_is_logged_witness:
  "trim [0x6F, 0x6B] \<noteq> []
   \<and> fst (insert_comment_call quiet_env ''user-1''
           \<lparr> ins_user_id = ''user-1'', ins_post_id = ''no-post'', ins_content = trim [0x6F, 0x6B],
             ins_parent_id = None \<rparr> demo_world) = Error foreign_key_violation
   \<and> createComment quiet_env ''no-post'' (Some ''user-1'') [0x6F, 0x6B] None demo_world =
       (Normal None,
        demo_world\<lparr>calls := [Insert_comment
               \<lparr> ins_user_id = ''user-1'', ins_post_id = ''no-post'', ins_content = [0x6F, 0x6B],
                 ins_parent_id = None \<rparr>],
          console := [(''Error creating comment:'', PgError foreign_key_violation)],
          toasts := [Toast_error Creation_failed]\<rparr>)
   \<and> fst (select_like_call quiet_env ''c9'' ''user-1'' demo_world) = Error no_single_row
   \<and> fst (insert_like_call quiet_env ''c9'' ''user-1''
            (snd (select_like_call quiet_env ''c9'' ''user-1'' demo_world)))
       = Error foreign_key_violation
   \<and> likeComment quiet_env ''post-1'' (Some ''user-1'') ''c9'' demo_world =
       (Normal (),
        demo_world\<lparr>calls := [Select_like ''c9'' ''user-1'', Insert_like ''c9'' ''user-1''],
          console := [(''Error liking comment:'', PgError foreign_key_violation)]\<rparr>)
   \<and> fst (select_like_call (fault_at 1 Reject) ''c1'' ''user-1'' liked_world) = Data demo_like
   \<and> fst (delete_like_call (fault_at 1 Reject) ''c1'' ''user-1''
            (snd (select_like_call (fault_at 1 Reject) ''c1'' ''user-1'' liked_world)))
       = Error service_fault
   \<and> likeComment (fault_at 1 Reject) ''post-1'' (Some ''user-1'') ''c1'' liked_world =
       (Normal (),
        liked_world\<lparr>calls := [Select_like ''c1'' ''user-1'', Delete_like ''c1'' ''user-1''],
          console := [(''Error unliking comment:'', PgError service_fault)]\<rparr>)"
proof -
  have t: "trim [0x6F, 0x6B] = [0x6F, 0x6B]"
    by (simp add: trim_def is_js_whitespace_def)
  have ok: "pg_text_ok [0x6F, 0x6B]" "pg_length [0x6F, 0x6B] = 2"
    by (simp_all add: pg_text_ok_def pg_length_def is_high_surrogate_def is_low_surrogate_def)
  have a: "fst (insert_comment_call quiet_env ''user-1''
           \<lparr> ins_user_id = ''user-1'', ins_post_id = ''no-post'', ins_content = trim [0x6F, 0x6B],
             ins_parent_id = None \<rparr> demo_world) = Error foreign_key_violation"
    by (simp add: t insert_comment_call_eq quiet_env_def demo_world_def insert_comment_def ok
          demo_store_def)
  have b1: "fst (select_like_call quiet_env ''c9'' ''user-1'' demo_world) = Error no_single_row"
    by (simp add: select_like_call_eq quiet_env_def demo_world_def demo_no_like)
  have b2: "fst (insert_like_call quiet_env ''c9'' ''user-1''
            (snd (select_like_call quiet_env ''c9'' ''user-1'' demo_world)))
       = Error foreign_key_violation"
    by (simp add: select_like_call_eq insert_like_call_eq quiet_env_def demo_world_def demo_no_like)
  have c1: "fst (select_like_call (fault_at 1 Reject) ''c1'' ''user-1'' liked_world) = Data demo_like"
    by (simp add: select_like_call_eq fault_at_def liked_world_def demo_world_def liked_store_def
          select_like_single_def demo_like_def)
  have c2: "fst (delete_like_call (fault_at 1 Reject) ''c1'' ''user-1''
            (snd (select_like_call (fault_at 1 Reject) ''c1'' ''user-1'' liked_world)))
       = Error service_fault"
    by (simp add: select_like_call_eq delete_like_call_eq fault_at_def liked_world_def
          demo_world_def)
  have nonblank: "trim [0x6F, 0x6B] \<noteq> []" by (simp add: t)
  have "createComment quiet_env ''no-post'' (Some ''user-1'') [0x6F, 0x6B] None demo_world =
       (Normal None,
        demo_world\<lparr>calls := calls demo_world @ [Insert_comment
               \<lparr> ins_user_id = ''user-1'', ins_post_id = ''no-post'',
                 ins_content = trim [0x6F, 0x6B], ins_parent_id = None \<rparr>],
          console := console demo_world @
            [(''Error creating comment:'', PgError foreign_key_violation)],
          toasts := toasts demo_world @ [Toast_error Creation_failed]\<rparr>)"
    by (rule rejected_write_is_logged [THEN conjunct1, rule_format]) (rule conjI, rule nonblank, rule a)
  then have A: "createComment quiet_env ''no-post'' (Some ''user-1'') [0x6F, 0x6B] None demo_world =
       (Normal None,
        demo_world\<lparr>calls := [Insert_comment
               \<lparr> ins_user_id = ''user-1'', ins_post_id = ''no-post'', ins_content = [0x6F, 0x6B],
                 ins_parent_id = None \<rparr>],
          console := [(''Error creating comment:'', PgError foreign_key_violation)],
          toasts := [Toast_error Creation_failed]\<rparr>)"
    by (simp add: demo_world_def t)
  have "likeComment quiet_env ''post-1'' (Some ''user-1'') ''c9'' demo_world =
       (Normal (),
        demo_world\<lparr>calls := calls demo_world @
            [Select_like ''c9'' ''user-1'', Insert_like ''c9'' ''user-1''],
          console := console demo_world @
            [(''Error liking comment:'', PgError foreign_key_violation)]\<rparr>)"
    by (rule rejected_write_is_logged [THEN conjunct2, THEN conjunct1, rule_format])
       (rule conjI, rule b1, rule b2)
  then have B: "likeComment quiet_env ''post-1'' (Some ''user-1'') ''c9'' demo_world =
       (Normal (),
        demo_world\<lparr>calls := [Select_like ''c9'' ''user-1'', Insert_like ''c9'' ''user-1''],
          console := [(''Error liking comment:'', PgError foreign_key_violation)]\<rparr>)"
    by (simp add: demo_world_def)
  have "likeComment (fault_at 1 Reject) ''post-1'' (Some ''user-1'') ''c1'' liked_world =
       (Normal (),
        liked_world\<lparr>calls := calls liked_world @
            [Select_like ''c1'' ''user-1'', Delete_like ''c1'' ''user-1''],
          console := console liked_world @
            [(''Error unliking comment:'', PgError service_fault)]\<rparr>)"
    by (rule rejected_write_is_logged [THEN conjunct2, THEN conjunct2, rule_format])
       (rule conjI, rule c1, rule c2)
  then have C: "likeComment (fault_at 1 Reject) ''post-1'' (Some ''user-1'') ''c1'' liked_world =
       (Normal (),
        liked_world\<lparr>calls := [Select_like ''c1'' ''user-1'', Delete_like ''c1'' ''user-1''],
          console := [(''Error unliking comment:'', PgError service_fault)]\<rparr>)"
    by (simp add: liked_world_def demo_world_def)
  from a b1 b2 c1 c2 A B C nonblank show ?thesis by (intro conjI)
qed

text \<open>
  C8, as the claim states it, fails for \<open>likeComment\<close>: here the like insert is
  rejected (the comment does not exist), and the call ends with the error on the
  console and no toast at all.
\<close>

theorem rejected_like_shows_no_toast:
  "fst (insert_like_call quiet_env ''c9'' ''user-1''
          (snd (select_like_call quiet_env ''c9'' ''user-1'' demo_world)))
     = Error foreign_key_violation
   \<and> console (snd (likeComment quiet_env ''post-1'' (Some ''user-1'') ''c9'' demo_world))
     = [(''Error liking comment:'', PgError foreign_key_violation)]
   \<and> toasts (snd (likeComment quiet_env ''post-1'' (Some ''user-1'') ''c9'' demo_world)) = []"
  by (simp add: likeComment_def select_like_call_eq insert_like_call_eq quiet_env_def
        demo_world_def demo_no_like console_error_def)

subsection \<open>The blocked card\<close>

text \<open>
  C9. When the \<open>isBlocked\<close> flag is set the component returns \<open>null\<close>: there is no
  element, so no handler a user could reach.
\<close>

theorem blocked_card_renders_nothing:
  assumes "isBlocked st"
  shows "PredictionCard ProtectedComponent prediction st = None
         \<and> exposed_handlers (PredictionCard ProtectedComponent prediction st) = []"
  using assms by (simp add: PredictionCard_def exposed_handlers_def)

theorem blocked_card_renders_nothing_witness:
  "isBlocked \<lparr> isPlaying = False, isBlocked = True \<rparr>
   \<and> PredictionCard (\<lambda>fallback child. child) \<lparr> video = None, image = None \<rparr>
        \<lparr> isPlaying = False, isBlocked = True \<rparr> = None
   \<and> exposed_handlers (PredictionCard (\<lambda>fallback child. child) \<lparr> video = None, image = None \<rparr>
        \<lparr> isPlaying = False, isBlocked = True \<rparr>) = []"
  using blocked_card_renders_nothing
    [where st = "\<lparr> isPlaying = False, isBlocked = True \<rparr>"
       and ProtectedComponent = "\<lambda>fallback child. child"
       and prediction = "\<lparr> video = None, image = None \<rparr>"]
  by (simp add: exposed_handlers_def)

text \<open>The same card, not blocked, is rendered and offers its handlers.\<close>

lemma unblocked_card_is_interactive:
  "exposed_handlers (PredictionCard (\<lambda>fallback child. child) \<lparr> video = None, image = None \<rparr>
        \<lparr> isPlaying = False, isBlocked = False \<rparr>)
   = [HandleProfileClick, HandleProfileClick, OpenDrawer,
      HandleMenuAction ''follow'', HandleMenuAction ''save'', HandleShare,
      HandleMenuAction ''report'', HandleMenuAction ''hide'', HandleMenuAction ''block'',
      HandleMenuAction ''follow'', HandleLike, OpenComments, HandleShare, OpenDialog]"
  by (simp add: PredictionCard_def exposed_handlers_def user_info_def match_info_def
        media_content_def actions_def menu_buttons_def)

subsection \<open>The tree\<close>

lemma info_commentsWithReplies:
  "map info (commentsWithReplies transformed) = rootComments transformed"
  by (simp add: commentsWithReplies_def comp_def)

lemma replies_commentsWithReplies:
  assumes "root \<in> set (commentsWithReplies transformed)"
  shows "replies root =
           Some (map (\<lambda>reply. Comment reply None)
                   (filter (\<lambda>reply. c_parent_id reply = Some (c_id (info root))) transformed))"
  using assms by (auto simp: commentsWithReplies_def)

lemma falsy_uuid: "v \<noteq> Some [] \<Longrightarrow> falsy v \<longleftrightarrow> v = None"
  by (cases v) (simp_all add: falsy_def)

lemma truncate_transformedComments:
  "map comment_row.truncate (transformedComments commentsData userLikes) = map fst commentsData"
  by (simp add: transformedComments_def comment_row.truncate_def comp_def split_def)

lemma transformedComments_columns:
  "map c_id (transformedComments commentsData userLikes) = map (c_id \<circ> fst) commentsData"
  "map c_parent_id (transformedComments commentsData userLikes) = map (c_parent_id \<circ> fst) commentsData"
  "map c_created_at (transformedComments commentsData userLikes) = map (c_created_at \<circ> fst) commentsData"
  by (simp_all add: transformedComments_def comp_def split_def)

lemma fst_select_comments:
  "map fst (select_comments postId s) =
     sort_key c_created_at (filter (\<lambda>c. c_post_id c = postId) (comments_tbl s))"
  by (simp add: select_comments_def comp_def)

text \<open>What a fetch that is answered leaves in the \<open>comments\<close> state.\<close>

lemma fetchComments_answered:
  assumes "postId \<noteq> []"
    and "ce_fault (env (length (calls w))) = NoFault"
    and "user \<noteq> None \<longrightarrow> ce_fault (env (Suc (length (calls w)))) \<noteq> Throw"
  shows "comments (snd (fetchComments env postId user w)) =
           commentsWithReplies
             (transformedComments (select_comments postId (db w)) (answered_likes env user w))"
  using assms
  by (cases user; cases "ce_fault (env (Suc (length (calls w))))")
     (simp_all add: fetchComments_def fetchComments_try_def select_comments_call_eq
        fetch_userLikes_def select_user_likes_call_eq setLoading_def setComments_def
        answered_likes_def)

text \<open>
  C1. A fetch that is answered (the comments query returns rows and, when there is
  a user, the likes query does not throw) sets \<open>comments\<close> to a tree over the fetched list \<open>flat\<close>, the
  comments of the post in ascending \<open>created_at\<close>. Its roots are exactly the entries
  of \<open>flat\<close> without a parent, in the order of \<open>flat\<close>; the replies of a root are
  exactly the entries of \<open>flat\<close> whose parent is the root's id, in the order of
  \<open>flat\<close>; so roots and replies ascend in creation time. The column \<open>parent_id\<close>
  is a UUID, never the empty string.
\<close>

theorem fetchComments_builds_tree:
  fixes env :: env and postId :: uuid and user :: "uuid option" and w :: world
  assumes "postId \<noteq> []"
    and "ce_fault (env (length (calls w))) = NoFault"
    and "user \<noteq> None \<longrightarrow> ce_fault (env (Suc (length (calls w)))) \<noteq> Throw"
    and "\<forall>c \<in> set (comments_tbl (db w)). c_parent_id c \<noteq> Some []"
  defines "flat \<equiv> transformedComments (select_comments postId (db w)) (answered_likes env user w)"
  defines "tree \<equiv> comments (snd (fetchComments env postId user w))"
  shows "map comment_row.truncate flat =
           sort_key c_created_at (filter (\<lambda>c. c_post_id c = postId) (comments_tbl (db w)))
         \<and> map info tree = filter (\<lambda>c. c_parent_id c = None) flat
         \<and> (\<forall>root \<in> set tree.
               replies root =
                 Some (map (\<lambda>reply. Comment reply None)
                         (filter (\<lambda>reply. c_parent_id reply = Some (c_id (info root))) flat))
               \<and> sorted (map c_created_at
                           (filter (\<lambda>reply. c_parent_id reply = Some (c_id (info root))) flat)))
         \<and> sorted (map c_created_at flat)
         \<and> sorted (map (c_created_at \<circ> info) tree)"
proof -
  have tree: "tree = commentsWithReplies flat"
    unfolding tree_def flat_def using assms(1-3) by (rule fetchComments_answered)
  have rows: "map comment_row.truncate flat =
           sort_key c_created_at (filter (\<lambda>c. c_post_id c = postId) (comments_tbl (db w)))"
    by (simp add: flat_def truncate_transformedComments fst_select_comments)
  have "map c_parent_id flat = map c_parent_id (map comment_row.truncate flat)"
    by (simp add: comment_row.truncate_def comp_def)
  then have "set (map c_parent_id flat) \<subseteq> c_parent_id ` set (comments_tbl (db w))"
    unfolding rows by auto
  with assms(4) have uuid: "\<forall>c \<in> set flat. c_parent_id c \<noteq> Some []"
    by (auto simp: image_iff subset_iff)
  have roots: "map info tree = filter (\<lambda>c. c_parent_id c = None) flat"
    unfolding tree info_commentsWithReplies rootComments_def
    by (rule filter_cong) (use uuid in \<open>simp_all add: falsy_uuid\<close>)
  have "map c_created_at flat = map c_created_at (map comment_row.truncate flat)"
    by (simp add: comment_row.truncate_def comp_def)
  then have sorted: "sorted (map c_created_at flat)"
    unfolding rows by simp
  have "map (c_created_at \<circ> info) tree = map c_created_at (map info tree)"
    by simp
  then have sorted_roots: "sorted (map (c_created_at \<circ> info) tree)"
    unfolding roots using sorted by (simp only: sorted_filter)
  show ?thesis
    using rows roots sorted sorted_roots
    by (auto simp: tree replies_commentsWithReplies intro: sorted_filter)
qed

lemma demo_flat:
  "transformedComments (select_comments ''post-1'' (db demo_world))
     (answered_likes quiet_env (Some ''user-1'') demo_world)
   = map (\<lambda>c. comment_row.extend c
                 \<lparr> username = None, display_name = None, avatar_url = None, badge = None,
                   is_liked = False \<rparr>)
       [demo_comment ''c1'' None 10, demo_comment ''c2'' (Some ''c1'') 20,
        demo_comment ''c3'' (Some ''c2'') 30]"
  by (simp add: transformedComments_def select_comments_def answered_likes_def quiet_env_def
        select_user_likes_def demo_world_def demo_store_def demo_comment_def
        comment_row.extend_def)

theorem fetchComments_builds_tree_witness:
  "''post-1'' \<noteq> []
   \<and> ce_fault (quiet_env (length (calls demo_world))) = NoFault
   \<and> ce_fault (quiet_env (Suc (length (calls demo_world)))) \<noteq> Throw
   \<and> list_all (\<lambda>c. c_parent_id c \<noteq> Some []) (comments_tbl (db demo_world))
   \<and> map (c_id \<circ> info) (comments (snd (fetchComments quiet_env ''post-1'' (Some ''user-1'') demo_world)))
       = [''c1'']
   \<and> map (map_option (map (c_id \<circ> info)) \<circ> replies)
        (comments (snd (fetchComments quiet_env ''post-1'' (Some ''user-1'') demo_world)))
       = [Some [''c2'']]"
proof -
  let ?tree = "comments (snd (fetchComments quiet_env ''post-1'' (Some ''user-1'') demo_world))"
  have h1: "''post-1'' \<noteq> []" by simp
  have h2: "ce_fault (quiet_env (length (calls demo_world))) = NoFault"
    by (simp add: quiet_env_def)
  have h3: "Some ''user-1'' \<noteq> None \<longrightarrow>
      ce_fault (quiet_env (Suc (length (calls demo_world)))) \<noteq> Throw"
    by (simp add: quiet_env_def)
  have h4: "\<forall>c \<in> set (comments_tbl (db demo_world)). c_parent_id c \<noteq> Some []"
    by (simp add: demo_world_def demo_store_def demo_comment_def)
  note T = fetchComments_builds_tree [OF h1 h2 h3 h4, unfolded demo_flat]
  from T have roots: "map (c_id \<circ> info) ?tree = [''c1'']"
    by (simp add: demo_comment_def comment_row.extend_def flip: map_map)
  then obtain root where tree: "?tree = [root]" and root: "c_id (info root) = ''c1''"
    by (cases ?tree) auto
  from T tree root have "map_option (map (c_id \<circ> info)) (replies root) = Some [''c2'']"
    by (simp add: demo_comment_def comment_row.extend_def)
  with roots tree h2 h3 h4 show ?thesis
    by (simp add: list_all_iff)
qed

text \<open>
  C3. Take a comment \<open>c\<close> of the post whose parent \<open>p\<close> is itself a reply. After an
  answered fetch \<open>c\<close> is in the fetched list, but its id is the id of no root and of
  no entry of any root's replies: the tree has dropped it. Ids are primary keys (no
  two rows share one) and UUIDs (never the empty string).
\<close>

theorem reply_to_reply_is_dropped:
  fixes env :: env and postId :: uuid and user :: "uuid option" and w :: world
  assumes "postId \<noteq> []"
    and "ce_fault (env (length (calls w))) = NoFault"
    and "user \<noteq> None \<longrightarrow> ce_fault (env (Suc (length (calls w)))) \<noteq> Throw"
    and pk: "distinct (map c_id (comments_tbl (db w)))"
    and uuid: "\<forall>c \<in> set (comments_tbl (db w)). c_parent_id c \<noteq> Some []"
    and c: "c \<in> set (comments_tbl (db w))" "c_post_id c = postId"
    and p: "p \<in> set (comments_tbl (db w))" "c_parent_id c = Some (c_id p)" "c_parent_id p \<noteq> None"
  defines "tree \<equiv> comments (snd (fetchComments env postId user w))"
  shows "c \<in> set (map fst (select_comments postId (db w)))
         \<and> c_id c \<notin> set (map (c_id \<circ> info) tree)
         \<and> (\<forall>root \<in> set tree. \<forall>rs. replies root = Some rs \<longrightarrow>
               c_id c \<notin> set (map (c_id \<circ> info) rs))"
proof -
  define flat where
    "flat = transformedComments (select_comments postId (db w)) (answered_likes env user w)"
  have tree: "tree = commentsWithReplies flat"
    unfolding tree_def flat_def using assms(1-3) by (rule fetchComments_answered)
  have fetched: "c \<in> set (map fst (select_comments postId (db w)))"
    using c by (simp add: fst_select_comments)
  have row: "\<exists>r \<in> set (comments_tbl (db w)). c_id r = c_id x \<and> c_parent_id r = c_parent_id x"
    if "x \<in> set flat" for x
  proof -
    from that have "comment_row.truncate x \<in> set (map comment_row.truncate flat)" by simp
    then have "comment_row.truncate x \<in> set (comments_tbl (db w))"
      by (simp add: flat_def truncate_transformedComments fst_select_comments)
    then show ?thesis
      by (rule rev_bexI) (simp add: comment_row.truncate_def)
  qed
  have same: "r = r'"
    if "r \<in> set (comments_tbl (db w))" "r' \<in> set (comments_tbl (db w))" "c_id r = c_id r'" for r r'
    using pk that by (auto simp: distinct_map dest: inj_onD)
  have truthy: "\<not> falsy (c_parent_id r)" if "r \<in> set (comments_tbl (db w))" "c_parent_id r \<noteq> None" for r
    using uuid that by (simp add: falsy_uuid)
  have is_root: "\<not> (x \<in> set (rootComments flat) \<and> c_id x = c_id r)"
    if "r \<in> set (comments_tbl (db w))" "c_parent_id r \<noteq> None" for x r
  proof
    assume x: "x \<in> set (rootComments flat) \<and> c_id x = c_id r"
    then have "x \<in> set flat" "falsy (c_parent_id x)" by (simp_all add: rootComments_def)
    from row [OF this(1)] obtain r' where
      r': "r' \<in> set (comments_tbl (db w))" "c_id r' = c_id x" "c_parent_id r' = c_parent_id x"
      by blast
    with x that(1) have "r' = r" by (intro same) simp_all
    with r' \<open>falsy (c_parent_id x)\<close> truthy [OF that] show False by simp
  qed
  have no_root: "c_id c \<notin> set (map (c_id \<circ> info) tree)"
  proof
    assume "c_id c \<in> set (map (c_id \<circ> info) tree)"
    then have "c_id c \<in> c_id ` set (map info tree)" by (simp add: image_comp)
    then obtain x where "x \<in> set (rootComments flat)" "c_id x = c_id c"
      unfolding tree info_commentsWithReplies by auto
    with is_root [OF c(1), of x] p(2) show False by simp
  qed
  have no_reply: "c_id c \<notin> set (map (c_id \<circ> info) rs)"
    if "root \<in> set tree" "replies root = Some rs" for root rs
  proof
    assume in_rs: "c_id c \<in> set (map (c_id \<circ> info) rs)"
    from that have rs: "rs = map (\<lambda>reply. Comment reply None)
        (filter (\<lambda>reply. c_parent_id reply = Some (c_id (info root))) flat)"
      by (simp add: tree replies_commentsWithReplies)
    from in_rs obtain x where x: "x \<in> set flat" "c_parent_id x = Some (c_id (info root))" "c_id x = c_id c"
      unfolding rs by (auto simp: comp_def)
    from row [OF x(1)] obtain r' where
      r': "r' \<in> set (comments_tbl (db w))" "c_id r' = c_id x" "c_parent_id r' = c_parent_id x"
      by blast
    with x c(1) have "r' = c" by (intro same) simp_all
    with r' x p(2) have parent: "c_id (info root) = c_id p" by simp
    from that(1) have "info root \<in> set (rootComments flat)"
      unfolding tree by (metis info_commentsWithReplies image_eqI list.set_map)
    with is_root [OF p(1) p(3), of "info root"] parent show False by simp
  qed
  from fetched no_root no_reply show ?thesis by blast
qed

theorem reply_to_reply_is_dropped_witness:
  "''post-1'' \<noteq> []
   \<and> ce_fault (quiet_env (length (calls demo_world))) = NoFault
   \<and> ce_fault (quiet_env (Suc (length (calls demo_world)))) \<noteq> Throw
   \<and> distinct (map c_id (comments_tbl (db demo_world)))
   \<and> list_all (\<lambda>c. c_parent_id c \<noteq> Some []) (comments_tbl (db demo_world))
   \<and> demo_comment ''c3'' (Some ''c2'') 30 \<in> set (comments_tbl (db demo_world))
   \<and> demo_comment ''c2'' (Some ''c1'') 20 \<in> set (comments_tbl (db demo_world))
   \<and> demo_comment ''c3'' (Some ''c2'') 30 \<in> set (map fst (select_comments ''post-1'' (db demo_world)))
   \<and> ''c3'' \<notin> set (map (c_id \<circ> info)
                     (comments (snd (fetchComments quiet_env ''post-1'' (Some ''user-1'') demo_world))))
   \<and> list_all (\<lambda>root. ''c3'' \<notin> set (map (c_id \<circ> info) (the (replies root))) \<and> replies root \<noteq> None)
       (comments (snd (fetchComments quiet_env ''post-1'' (Some ''user-1'') demo_world)))
   \<and> comments (snd (fetchComments quiet_env ''post-1'' (Some ''user-1'') demo_world)) \<noteq> []"
proof -
  let ?tree = "comments (snd (fetchComments quiet_env ''post-1'' (Some ''user-1'') demo_world))"
  let ?c = "demo_comment ''c3'' (Some ''c2'') 30" and ?p = "demo_comment ''c2'' (Some ''c1'') 20"
  have h1: "''post-1'' \<noteq> []" by simp
  have h2: "ce_fault (quiet_env (length (calls demo_world))) = NoFault"
    by (simp add: quiet_env_def)
  have h3: "Some ''user-1'' \<noteq> None \<longrightarrow>
      ce_fault (quiet_env (Suc (length (calls demo_world)))) \<noteq> Throw"
    by (simp add: quiet_env_def)
  have pk: "distinct (map c_id (comments_tbl (db demo_world)))"
    by (simp add: demo_world_def demo_store_def demo_comment_def)
  have uuid: "\<forall>c \<in> set (comments_tbl (db demo_world)). c_parent_id c \<noteq> Some []"
    by (simp add: demo_world_def demo_store_def demo_comment_def)
  have c: "?c \<in> set (comments_tbl (db demo_world))" "c_post_id ?c = ''post-1''"
    by (simp_all add: demo_world_def demo_store_def demo_comment_def)
  have p: "?p \<in> set (comments_tbl (db demo_world))" "c_parent_id ?c = Some (c_id ?p)"
      "c_parent_id ?p \<noteq> None"
    by (simp_all add: demo_world_def demo_store_def demo_comment_def)
  note D = reply_to_reply_is_dropped [OF h1 h2 h3 pk uuid c p]
  have produced: "?tree \<noteq> []" "list_all (\<lambda>root. replies root \<noteq> None) ?tree"
    by (simp_all add: fetchComments_answered [OF h1 h2 h3] demo_flat commentsWithReplies_def
          rootComments_def falsy_def demo_comment_def comment_row.extend_def)
  from D have "c_id ?c = ''c3''" by (simp add: demo_comment_def)
  with D produced have "list_all (\<lambda>root. ''c3'' \<notin> set (map (c_id \<circ> info) (the (replies root)))
                                  \<and> replies root \<noteq> None) ?tree"
    by (auto simp: list_all_iff)
  with D produced h2 h3 pk uuid c p show ?thesis
    by (simp add: list_all_iff demo_comment_def)
qed

subsection \<open>The comment counter of a post\<close>

lemma set_post_comments_posts:
  assumes "set_post_comments pid n s = Inr s'"
  shows "comments_tbl s' = comments_tbl s"
    and "posts_tbl s' = (if posts_tbl s pid = None then posts_tbl s
                         else (posts_tbl s)(pid \<mapsto> Some n))"
  using assms by (auto simp: set_post_comments_def split: if_splits)

lemma count_comments_rows: "count_comments pid s = int (length (rows_of_post pid s))"
  by (simp add: count_comments_def rows_of_post_def)

lemma rows_of_post_cong: "comments_tbl s' = comments_tbl s \<Longrightarrow> rows_of_post pid s' = rows_of_post pid s"
  by (simp add: rows_of_post_def)

text \<open>The recount trigger, fired for a list of rows on a table that no longer changes.\<close>

lemma fire_each_recount:
  assumes "fire_each (update_post_comments_count DELETE) rows s = Inr s'"
  shows "comments_tbl s' = comments_tbl s \<and>
         (\<forall>pid. posts_tbl s' pid =
                  (if pid \<in> c_post_id ` set rows \<and> posts_tbl s pid \<noteq> None
                   then Some (Some (int (length (rows_of_post pid s))))
                   else posts_tbl s pid))"
  using assms
proof (induction rows arbitrary: s)
  case Nil
  then show ?case by simp
next
  case (Cons r rows)
  from Cons.prems obtain s1 where
    trig: "update_post_comments_count DELETE r s = Inr s1"
    and rest: "fire_each (update_post_comments_count DELETE) rows s1 = Inr s'"
    by (auto split: sum.splits)
  from trig have
    s1: "set_post_comments (c_post_id r) (count_comments (c_post_id r) s) s = Inr s1"
    by (simp add: update_post_comments_count_def)
  note tbl = set_post_comments_posts [OF s1]
  have rows: "rows_of_post pid s1 = rows_of_post pid s" for pid
    using tbl(1) by (rule rows_of_post_cong)
  from Cons.IH [OF rest] tbl show ?case
    by (auto simp: rows count_comments_rows)
qed

lemma insert_comment_counter:
  assumes "insert_comment new_id now auth_uid p s = Inr (row, s')"
  shows "comments_tbl s' = comments_tbl s @ [row]"
    and "c_post_id row = ins_post_id p"
    and "posts_tbl s' = (posts_tbl s)(ins_post_id p \<mapsto> Some (int (length (rows_of_post (ins_post_id p) s'))))"
proof -
  let ?row = "\<lparr> c_id = new_id, c_user_id = ins_user_id p, c_post_id = ins_post_id p,
                 c_content = ins_content p, c_parent_id = ins_parent_id p,
                 c_likes_count = Some 0, c_created_at = now, c_updated_at = now \<rparr>"
  let ?s1 = "s\<lparr>comments_tbl := comments_tbl s @ [?row]\<rparr>"
  from assms have row: "row = ?row" and post: "posts_tbl s (ins_post_id p) \<noteq> None"
    and trig: "set_post_comments (ins_post_id p) (count_comments (ins_post_id p) ?s1) ?s1 = Inr s'"
    by (auto simp: insert_comment_def Let_def update_post_comments_count_def
             split: if_splits sum.splits)
  note tbl = set_post_comments_posts [OF trig]
  from tbl(1) row show "comments_tbl s' = comments_tbl s @ [row]" by simp
  from row show "c_post_id row = ins_post_id p" by simp
  have "rows_of_post (ins_post_id p) s' = rows_of_post (ins_post_id p) ?s1"
    using tbl(1) by (rule rows_of_post_cong)
  with tbl(2) post show "posts_tbl s' =
      (posts_tbl s)(ins_post_id p \<mapsto> Some (int (length (rows_of_post (ins_post_id p) s'))))"
    by (simp add: count_comments_rows)
qed

lemma filter_filter_changed:
  assumes "filter P (filter Q xs) \<noteq> filter P xs"
  shows "\<exists>x \<in> set xs. P x \<and> \<not> Q x"
proof (rule ccontr)
  assume "\<not> (\<exists>x \<in> set xs. P x \<and> \<not> Q x)"
  then have "filter P (filter Q xs) = filter P xs"
    by (auto intro: filter_cong)
  with assms show False by simp
qed

text \<open>One statement: the counter of a post it touched is exact, the others keep theirs.\<close>

lemma exec_stmt_counter:
  assumes post: "posts_tbl s pid \<noteq> None"
    and "counter_exact pid s \<or> rows_of_post pid (exec_stmt st s) \<noteq> rows_of_post pid s"
  shows "counter_exact pid (exec_stmt st s) \<and> posts_tbl (exec_stmt st s) pid \<noteq> None"
proof (cases st)
  case (Insert_stmt new_id now auth_uid p)
  show ?thesis
  proof (cases "insert_comment new_id now auth_uid p s")
    case (Inl e)
    with Insert_stmt assms show ?thesis by (simp add: exec_stmt_def)
  next
    case (Inr res)
    then obtain row s' where res: "insert_comment new_id now auth_uid p s = Inr (row, s')"
      by (cases res) simp
    with Insert_stmt have s': "exec_stmt st s = s'" by (simp add: exec_stmt_def)
    note ins = insert_comment_counter [OF res]
    show ?thesis
    proof (cases "pid = ins_post_id p")
      case True
      with ins(3) show ?thesis by (simp add: s' counter_exact_def)
    next
      case False
      with ins have "rows_of_post pid s' = rows_of_post pid s" "posts_tbl s' pid = posts_tbl s pid"
        by (simp_all add: rows_of_post_def)
      with assms show ?thesis by (simp add: s' counter_exact_def)
    qed
  qed
next
  case (Delete_stmt auth_uid cid)
  show ?thesis
  proof (cases "delete_comment auth_uid cid s")
    case (Inl e)
    with Delete_stmt assms show ?thesis by (simp add: exec_stmt_def)
  next
    case (Inr s')
    with Delete_stmt have s': "exec_stmt st s = s'" by (simp add: exec_stmt_def)
    define doomed where "doomed = cascade (length (comments_tbl s))
        (map c_id (filter (\<lambda>c. c_id c = cid \<and> auth_uid = Some (c_user_id c)) (comments_tbl s)))
        (comments_tbl s)"
    define s1 where "s1 = s\<lparr>comments_tbl := filter (\<lambda>c. c_id c \<notin> set doomed) (comments_tbl s),
        comment_likes_tbl := filter (\<lambda>l. l_comment_id l \<notin> set doomed) (comment_likes_tbl s)\<rparr>"
    from Inr have fire: "fire_each (update_post_comments_count DELETE)
        (filter (\<lambda>c. c_id c \<in> set doomed) (comments_tbl s)) s1 = Inr s'"
      by (simp add: delete_comment_def Let_def doomed_def s1_def)
    from fire_each_recount [OF fire]
    have tbl: "comments_tbl s' = comments_tbl s1"
      and posts: "posts_tbl s' pid =
            (if pid \<in> c_post_id ` set (filter (\<lambda>c. c_id c \<in> set doomed) (comments_tbl s))
                \<and> posts_tbl s1 pid \<noteq> None
             then Some (Some (int (length (rows_of_post pid s1))))
             else posts_tbl s1 pid)"
      by simp_all
    have rows: "rows_of_post pid s' = rows_of_post pid s1"
      using tbl by (rule rows_of_post_cong)
    have posts1: "posts_tbl s1 = posts_tbl s" by (simp add: s1_def)
    show ?thesis
    proof (cases "pid \<in> c_post_id ` set (filter (\<lambda>c. c_id c \<in> set doomed) (comments_tbl s))")
      case True
      with posts post show ?thesis by (simp add: s' counter_exact_def rows posts1)
    next
      case False
      then have "filter (\<lambda>c. c_post_id c = pid) (filter (\<lambda>c. c_id c \<notin> set doomed) (comments_tbl s))
                   = filter (\<lambda>c. c_post_id c = pid) (comments_tbl s)"
        using filter_filter_changed
          [of "\<lambda>c. c_post_id c = pid" "\<lambda>c. c_id c \<notin> set doomed" "comments_tbl s"]
        by auto
      then have same: "rows_of_post pid s' = rows_of_post pid s"
        by (simp add: rows) (simp add: rows_of_post_def s1_def)
      from False posts have "posts_tbl s' pid = posts_tbl s pid" by (simp add: posts1)
      with same assms show ?thesis by (simp add: s' counter_exact_def)
    qed
  qed
qed

text \<open>
  C4. Take a post that exists and any sequence of comment inserts and deletes, each
  followed by its row-level triggers. If the post's counter was exact before the
  sequence, or some statement of the sequence inserted or deleted a comment of the
  post, the counter \<open>posts.comments\<close> afterwards is the number of comment rows that
  reference the post.
\<close>

theorem comment_counter_law:
  assumes "posts_tbl s pid \<noteq> None"
    and "counter_exact pid s \<or> touched pid stmts s"
  shows "counter_exact pid (exec_all stmts s)"
  using assms
proof (induction stmts arbitrary: s)
  case Nil
  then show ?case by simp
next
  case (Cons st stmts)
  show ?case
  proof (cases "counter_exact pid s \<or> rows_of_post pid (exec_stmt st s) \<noteq> rows_of_post pid s")
    case True
    with Cons.prems(1) have "counter_exact pid (exec_stmt st s) \<and> posts_tbl (exec_stmt st s) pid \<noteq> None"
      by (rule exec_stmt_counter)
    with Cons.IH [of "exec_stmt st s"] show ?thesis by simp
  next
    case False
    with Cons.prems have later: "touched pid stmts (exec_stmt st s)" by simp
    from False have "posts_tbl (exec_stmt st s) pid = posts_tbl s pid"
    proof (cases st)
      case (Insert_stmt new_id now auth_uid p)
      show ?thesis
      proof (cases "insert_comment new_id now auth_uid p s")
        case (Inl e)
        with Insert_stmt show ?thesis by (simp add: exec_stmt_def)
      next
        case (Inr res)
        then obtain row s' where res: "insert_comment new_id now auth_uid p s = Inr (row, s')"
          by (cases res) simp
        with Insert_stmt have s': "exec_stmt st s = s'" by (simp add: exec_stmt_def)
        note ins = insert_comment_counter [OF res]
        from False ins(1,2) have "pid \<noteq> ins_post_id p"
          by (auto simp: s' rows_of_post_def)
        with ins(3) show ?thesis by (simp add: s')
      qed
    next
      case (Delete_stmt auth_uid cid)
      show ?thesis
      proof (cases "delete_comment auth_uid cid s")
        case (Inl e)
        with Delete_stmt show ?thesis by (simp add: exec_stmt_def)
      next
        case (Inr s')
        with Delete_stmt have s': "exec_stmt st s = s'" by (simp add: exec_stmt_def)
        define doomed where "doomed = cascade (length (comments_tbl s))
            (map c_id (filter (\<lambda>c. c_id c = cid \<and> auth_uid = Some (c_user_id c)) (comments_tbl s)))
            (comments_tbl s)"
        define s1 where "s1 = s\<lparr>comments_tbl := filter (\<lambda>c. c_id c \<notin> set doomed) (comments_tbl s),
            comment_likes_tbl := filter (\<lambda>l. l_comment_id l \<notin> set doomed) (comment_likes_tbl s)\<rparr>"
        from Inr have fire: "fire_each (update_post_comments_count DELETE)
            (filter (\<lambda>c. c_id c \<in> set doomed) (comments_tbl s)) s1 = Inr s'"
          by (simp add: delete_comment_def Let_def doomed_def s1_def)
        from fire_each_recount [OF fire]
        have tbl: "comments_tbl s' = comments_tbl s1"
          and posts: "posts_tbl s' pid =
                (if pid \<in> c_post_id ` set (filter (\<lambda>c. c_id c \<in> set doomed) (comments_tbl s))
                    \<and> posts_tbl s1 pid \<noteq> None
                 then Some (Some (int (length (rows_of_post pid s1))))
                 else posts_tbl s1 pid)"
          by simp_all
        have "pid \<notin> c_post_id ` set (filter (\<lambda>c. c_id c \<in> set doomed) (comments_tbl s))"
        proof
          assume "pid \<in> c_post_id ` set (filter (\<lambda>c. c_id c \<in> set doomed) (comments_tbl s))"
          then obtain x where x: "x \<in> set (comments_tbl s)" "c_id x \<in> set doomed" "c_post_id x = pid"
            by auto
          then have "x \<in> set (rows_of_post pid s)" "x \<notin> set (rows_of_post pid s')"
            by (simp_all add: rows_of_post_def tbl s1_def)
          with False show False by (auto simp: s')
        qed
        with posts show ?thesis by (simp add: s' s1_def)
      qed
    qed
    with Cons.prems(1) have "posts_tbl (exec_stmt st s) pid \<noteq> None" by simp
    with Cons.IH [of "exec_stmt st s"] later show ?thesis by simp
  qed
qed

lemma demo_stmts_run:
  "exec_stmt demo_insert stale_store =
     stale_store\<lparr>comments_tbl := comments_tbl demo_store @ [demo_comment ''c4'' None 50],
       posts_tbl := [''post-1'' \<mapsto> Some 4]\<rparr>"
  "exec_stmt demo_delete
     (stale_store\<lparr>comments_tbl := comments_tbl demo_store @ [demo_comment ''c4'' None 50],
        posts_tbl := [''post-1'' \<mapsto> Some 4]\<rparr>) =
     stale_store\<lparr>comments_tbl := [demo_comment ''c4'' None 50],
       posts_tbl := [''post-1'' \<mapsto> Some 1]\<rparr>"
proof -
  have ok: "pg_text_ok [0x6F, 0x6B]" "pg_length [0x6F, 0x6B] = 2"
    by (simp_all add: pg_text_ok_def pg_length_def is_high_surrogate_def is_low_surrogate_def)
  show "exec_stmt demo_insert stale_store =
     stale_store\<lparr>comments_tbl := comments_tbl demo_store @ [demo_comment ''c4'' None 50],
       posts_tbl := [''post-1'' \<mapsto> Some 4]\<rparr>"
    by (simp add: demo_insert_def exec_stmt_def insert_comment_def ok stale_store_def
          demo_store_def demo_comment_def update_post_comments_count_def set_post_comments_def
          count_comments_def int4_ok_def Let_def)
  show "exec_stmt demo_delete
     (stale_store\<lparr>comments_tbl := comments_tbl demo_store @ [demo_comment ''c4'' None 50],
        posts_tbl := [''post-1'' \<mapsto> Some 4]\<rparr>) =
     stale_store\<lparr>comments_tbl := [demo_comment ''c4'' None 50],
       posts_tbl := [''post-1'' \<mapsto> Some 1]\<rparr>"
    by (simp add: demo_delete_def exec_stmt_def delete_comment_def stale_store_def
          demo_store_def demo_comment_def update_post_comments_count_def set_post_comments_def
          count_comments_def int4_ok_def Let_def)
qed

theorem comment_counter_law_witness:
  "posts_tbl stale_store ''post-1'' \<noteq> None
   \<and> touched ''post-1'' [demo_insert, demo_delete] stale_store
   \<and> counter_exact ''post-1'' (exec_all [demo_insert, demo_delete] stale_store)
   \<and> map c_id (comments_tbl (exec_all [demo_insert, demo_delete] stale_store)) = [''c4'']
   \<and> posts_tbl (exec_all [demo_insert, demo_delete] stale_store) ''post-1'' = Some (Some 1)"
proof -
  have post: "posts_tbl stale_store ''post-1'' \<noteq> None"
    by (simp add: stale_store_def)
  have t: "touched ''post-1'' [demo_insert, demo_delete] stale_store"
    by (simp add: demo_stmts_run) (simp add: rows_of_post_def stale_store_def demo_store_def demo_comment_def)
  have run: "exec_all [demo_insert, demo_delete] stale_store =
     stale_store\<lparr>comments_tbl := [demo_comment ''c4'' None 50],
       posts_tbl := [''post-1'' \<mapsto> Some 1]\<rparr>"
    by (simp add: demo_stmts_run)
  from comment_counter_law [OF post disjI2, OF t] post t run show ?thesis
    by (simp add: demo_comment_def)
qed

subsection \<open>The cascade of a delete\<close>

text \<open>
  The rounds of \<open>cascade\<close> suffice: when they end, every row whose parent is doomed
  is doomed itself, so a delete leaves no comment behind whose parent it removed.
\<close>

lemma cascade_closed:
  assumes "length (filter (\<lambda>c. c_id c \<notin> set ids) tbl) \<le> n"
    and "c \<in> set tbl" and "c_parent_id c = Some q" and "q \<in> set (cascade n ids tbl)"
  shows "c_id c \<in> set (cascade n ids tbl)"
  using assms
proof (induction n arbitrary: ids)
  case 0
  then have "filter (\<lambda>c. c_id c \<notin> set ids) tbl = []" by simp
  with 0(2) show ?case by (auto simp: filter_empty_conv)
next
  case (Suc n)
  let ?fresh = "\<lambda>c. c_id c \<notin> set ids \<and> (case c_parent_id c of None \<Rightarrow> False | Some q \<Rightarrow> q \<in> set ids)"
  let ?kids = "map c_id (filter ?fresh tbl)"
  show ?case
  proof (cases "?kids = []")
    case True
    with Suc.prems(4) have q: "q \<in> set ids" by simp
    have "c_id c \<in> set ids"
    proof (rule ccontr)
      assume "c_id c \<notin> set ids"
      with Suc.prems(2,3) q have "c \<in> set (filter ?fresh tbl)" by simp
      with True show False by simp
    qed
    with True show ?thesis by simp
  next
    case False
    then obtain k where k: "k \<in> set tbl" "?fresh k"
      by (auto simp: filter_empty_conv)
    have "filter (\<lambda>c. c_id c \<notin> set (ids @ ?kids)) tbl
            = filter (\<lambda>c. c_id c \<notin> set ?kids) (filter (\<lambda>c. c_id c \<notin> set ids) tbl)"
      by (auto intro: filter_cong)
    moreover have "k \<in> set (filter (\<lambda>c. c_id c \<notin> set ids) tbl)" "\<not> c_id k \<notin> set ?kids"
      using k by auto
    then have "length (filter (\<lambda>c. c_id c \<notin> set ?kids) (filter (\<lambda>c. c_id c \<notin> set ids) tbl))
                 < length (filter (\<lambda>c. c_id c \<notin> set ids) tbl)"
      by (rule length_filter_less)
    ultimately have len: "length (filter (\<lambda>c. c_id c \<notin> set (ids @ ?kids)) tbl) \<le> n"
      using Suc.prems(1) by simp
    from False Suc.prems(4) have "q \<in> set (cascade n (ids @ ?kids) tbl)"
      by (simp add: Let_def)
    with len Suc.prems(2,3) have "c_id c \<in> set (cascade n (ids @ ?kids) tbl)"
      by (rule Suc.IH)
    with False show ?thesis by (simp add: Let_def)
  qed
qed

lemma delete_comment_keeps_parents:
  assumes "delete_comment auth_uid cid s = Inr s'"
    and "c \<in> set (comments_tbl s')" and "c_parent_id c = Some q"
    and "q \<in> set (map c_id (comments_tbl s))"
  shows "q \<in> set (map c_id (comments_tbl s'))"
proof -
  define doomed where "doomed = cascade (length (comments_tbl s))
      (map c_id (filter (\<lambda>c. c_id c = cid \<and> auth_uid = Some (c_user_id c)) (comments_tbl s)))
      (comments_tbl s)"
  define s1 where "s1 = s\<lparr>comments_tbl := filter (\<lambda>c. c_id c \<notin> set doomed) (comments_tbl s),
      comment_likes_tbl := filter (\<lambda>l. l_comment_id l \<notin> set doomed) (comment_likes_tbl s)\<rparr>"
  from assms(1) have fire: "fire_each (update_post_comments_count DELETE)
      (filter (\<lambda>c. c_id c \<in> set doomed) (comments_tbl s)) s1 = Inr s'"
    by (simp add: delete_comment_def Let_def doomed_def s1_def)
  have tbl: "comments_tbl s' = filter (\<lambda>c. c_id c \<notin> set doomed) (comments_tbl s)"
    using fire_each_recount [OF fire] by (simp add: s1_def)
  from assms(2) have c: "c \<in> set (comments_tbl s)" "c_id c \<notin> set doomed"
    by (simp_all add: tbl)
  have "q \<notin> set doomed"
  proof
    assume "q \<in> set doomed"
    then have "c_id c \<in> set doomed"
      unfolding doomed_def
      by (intro cascade_closed [OF _ c(1) assms(3)]) (simp_all add: le_trans [OF length_filter_le])
    with c(2) show False by simp
  qed
  with assms(4) show ?thesis by (auto simp: tbl)
qed

subsection \<open>The like toggle\<close>

lemma update_likes_count_eq:
  "update_likes_count now f cid s =
     (if list_all (\<lambda>c. case c_likes_count c of None \<Rightarrow> True | Some n \<Rightarrow> int4_ok (f n))
           (filter (\<lambda>c. c_id c = cid) (comments_tbl s))
      then Inr (s\<lparr>comments_tbl :=
                    map (\<lambda>c. if c_id c = cid
                              then c\<lparr>c_likes_count := map_option f (c_likes_count c),
                                     c_updated_at := now\<rparr>
                              else c) (comments_tbl s)\<rparr>)
      else Inl numeric_out_of_range)"
proof -
  let ?g = "\<lambda>c. if c_id c = cid
                 then c\<lparr>c_likes_count := map_option f (c_likes_count c), c_updated_at := now\<rparr>
                 else c"
  have f1: "filter (\<lambda>c. c_id c = cid) (map ?g xs) = map ?g (filter (\<lambda>c. c_id c = cid) xs)" for xs
    by (induction xs) simp_all
  have f2: "list_all (\<lambda>c. case c_likes_count c of None \<Rightarrow> True | Some n \<Rightarrow> int4_ok n)
                   (map ?g (filter (\<lambda>c. c_id c = cid) xs))
               = list_all (\<lambda>c. case c_likes_count c of None \<Rightarrow> True | Some n \<Rightarrow> int4_ok (f n))
                   (filter (\<lambda>c. c_id c = cid) xs)" for xs
    by (induction xs) (simp_all split: option.splits)
  have "update_likes_count now f cid s =
          (if list_all (\<lambda>c. case c_likes_count c of None \<Rightarrow> True | Some n \<Rightarrow> int4_ok n)
                (filter (\<lambda>c. c_id c = cid) (map ?g (comments_tbl s)))
           then Inr (s\<lparr>comments_tbl := map ?g (comments_tbl s)\<rparr>)
           else Inl numeric_out_of_range)"
    unfolding update_likes_count_def update_updated_at_column_def Let_def by simp
  then show ?thesis
    unfolding f1 f2 .
qed

lemma liked_filter:
  "liked s cid uid \<longleftrightarrow>
     filter (\<lambda>l. l_comment_id l = cid \<and> l_user_id l = uid) (comment_likes_tbl s) \<noteq> []"
  by (simp add: liked_def list_ex_iff filter_empty_conv)

lemma select_like_single_eq:
  "select_like_single cid uid s = Inr l \<longleftrightarrow>
     filter (\<lambda>l. l_comment_id l = cid \<and> l_user_id l = uid) (comment_likes_tbl s) = [l]"
  by (auto simp: select_like_single_def split: list.splits)

lemma insert_like_eq:
  "insert_like new_id now (Some uid) cid uid s =
     (if liked s cid uid then Inl unique_violation
      else if cid \<notin> set (map c_id (comments_tbl s)) \<or> uid \<notin> set (users_tbl s)
      then Inl foreign_key_violation
      else update_likes_count now (\<lambda>n. n + 1) cid
             (s\<lparr>comment_likes_tbl := comment_likes_tbl s @
                  [\<lparr> l_id = new_id, l_comment_id = cid, l_user_id = uid, l_created_at = now \<rparr>]\<rparr>))"
  by (simp add: insert_like_def liked_def update_comment_likes_count_def Let_def)

lemma delete_likes_eq:
  assumes "filter (\<lambda>l. l_comment_id l = cid \<and> l_user_id l = uid) (comment_likes_tbl s) = [l]"
  shows "delete_likes now (Some uid) cid uid s =
           update_likes_count now (\<lambda>n. n - 1) cid
             (s\<lparr>comment_likes_tbl :=
                  filter (\<lambda>l. \<not> (l_comment_id l = cid \<and> l_user_id l = uid)) (comment_likes_tbl s)\<rparr>)"
proof -
  let ?hit = "\<lambda>l. l_comment_id l = cid \<and> l_user_id l = uid \<and> Some uid = Some (l_user_id l)"
  let ?match = "\<lambda>l. l_comment_id l = cid \<and> l_user_id l = uid"
  have hit: "filter ?hit xs = filter ?match xs" "filter (\<lambda>l. \<not> ?hit l) xs = filter (\<lambda>l. \<not> ?match l) xs"
    for xs :: "like_row list"
    by (auto intro: filter_cong)
  from assms have "l \<in> set (filter ?match (comment_likes_tbl s))"
    by simp
  then have l: "l_comment_id l = cid" by simp
  have "delete_likes now (Some uid) cid uid s =
          fire_each (update_comment_likes_count now DELETE) (filter ?hit (comment_likes_tbl s))
            (s\<lparr>comment_likes_tbl := filter (\<lambda>l. \<not> ?hit l) (comment_likes_tbl s)\<rparr>)"
    unfolding delete_likes_def Let_def ..
  also have "\<dots> = update_comment_likes_count now DELETE l
            (s\<lparr>comment_likes_tbl := filter (\<lambda>l. \<not> ?match l) (comment_likes_tbl s)\<rparr>)"
    unfolding hit assms by (simp split: sum.splits)
  finally show ?thesis
    by (simp add: update_comment_likes_count_def l)
qed

lemma updated_rows_in_range:
  assumes "list_all (\<lambda>c. case c_likes_count c of None \<Rightarrow> True | Some n \<Rightarrow> int4_ok n) xs"
    and "\<And>n. f' (f n) = n"
  shows "list_all (\<lambda>c. case c_likes_count c of None \<Rightarrow> True | Some n \<Rightarrow> int4_ok (f' n))
           (filter (\<lambda>c. c_id c = cid)
              (map (\<lambda>c. if c_id c = cid
                        then c\<lparr>c_likes_count := map_option f (c_likes_count c),
                               c_updated_at := now\<rparr>
                        else c) xs))"
  using assms by (induction xs) (auto split: option.splits)

lemma updated_rows_exact:
  assumes "list_all (\<lambda>c. c_likes_count c = Some n) (filter (\<lambda>c. c_id c = cid) xs)"
  shows "list_all (\<lambda>c. c_likes_count c = Some (f n))
           (filter (\<lambda>c. c_id c = cid)
              (map (\<lambda>c. if c_id c = cid
                        then c\<lparr>c_likes_count := map_option f (c_likes_count c),
                               c_updated_at := now\<rparr>
                        else c) xs))"
  using assms by (induction xs) auto

lemma updated_rows_ids:
  "map c_id (map (\<lambda>c. if c_id c = cid
                        then c\<lparr>c_likes_count := map_option f (c_likes_count c),
                               c_updated_at := now\<rparr>
                        else c) xs) = map c_id xs"
  by (induction xs) auto

lemma count_without_match:
  assumes "filter (\<lambda>l. l_comment_id l = cid \<and> l_user_id l = uid) xs = [l]"
  shows "int (length (filter (\<lambda>l. l_comment_id l = cid)
                        (filter (\<lambda>l. \<not> (l_comment_id l = cid \<and> l_user_id l = uid)) xs)))
         = int (length (filter (\<lambda>l. l_comment_id l = cid) xs)) - 1"
proof -
  have "length (filter (\<lambda>l. l_comment_id l = cid) xs)
          = length (filter (\<lambda>l. l_comment_id l = cid \<and> l_user_id l = uid) xs)
            + length (filter (\<lambda>l. l_comment_id l = cid)
                        (filter (\<lambda>l. \<not> (l_comment_id l = cid \<and> l_user_id l = uid)) xs))"
    by (induction xs) auto
  with assms show ?thesis by simp
qed

text \<open>The two branches of a toggle, with the conditions under which the store changes.\<close>

lemma toggle_like_unlike:
  assumes "filter (\<lambda>l. l_comment_id l = cid \<and> l_user_id l = uid) (comment_likes_tbl s) = [l]"
  shows "toggle_like e cid uid s =
     (if list_all (\<lambda>c. case c_likes_count c of None \<Rightarrow> True | Some n \<Rightarrow> int4_ok (n - 1))
           (filter (\<lambda>c. c_id c = cid) (comments_tbl s))
      then s\<lparr>comment_likes_tbl :=
                filter (\<lambda>l. \<not> (l_comment_id l = cid \<and> l_user_id l = uid)) (comment_likes_tbl s),
              comments_tbl :=
                map (\<lambda>c. if c_id c = cid
                          then c\<lparr>c_likes_count := map_option (\<lambda>n. n - 1) (c_likes_count c),
                                 c_updated_at := ce_now e\<rparr>
                          else c) (comments_tbl s)\<rparr>
      else s)"
proof -
  from assms have "select_like_single cid uid s = Inr l"
    by (simp add: select_like_single_eq)
  then show ?thesis
    by (simp add: toggle_like_def delete_likes_eq [OF assms] update_likes_count_eq)
qed

lemma toggle_like_like:
  assumes "select_like_single cid uid s = Inl err"
  shows "toggle_like e cid uid s =
     (if \<not> liked s cid uid \<and> cid \<in> set (map c_id (comments_tbl s)) \<and> uid \<in> set (users_tbl s)
         \<and> list_all (\<lambda>c. case c_likes_count c of None \<Rightarrow> True | Some n \<Rightarrow> int4_ok (n + 1))
              (filter (\<lambda>c. c_id c = cid) (comments_tbl s))
      then s\<lparr>comment_likes_tbl := comment_likes_tbl s @
                [\<lparr> l_id = ce_uuid e, l_comment_id = cid, l_user_id = uid,
                   l_created_at = ce_now e \<rparr>],
              comments_tbl :=
                map (\<lambda>c. if c_id c = cid
                          then c\<lparr>c_likes_count := map_option (\<lambda>n. n + 1) (c_likes_count c),
                                 c_updated_at := ce_now e\<rparr>
                          else c) (comments_tbl s)\<rparr>
      else s)"
  using assms by (simp add: toggle_like_def insert_like_eq update_likes_count_eq)

text \<open>One toggle keeps the counter of the comment equal to the number of its like rows.\<close>

lemma toggle_like_exact:
  assumes "likes_count_exact cid s"
  shows "likes_count_exact cid (toggle_like e cid uid s)"
proof (cases "select_like_single cid uid s")
  case (Inr l)
  then have one: "filter (\<lambda>l. l_comment_id l = cid \<and> l_user_id l = uid) (comment_likes_tbl s) = [l]"
    by (simp add: select_like_single_eq)
  let ?s' = "s\<lparr>comment_likes_tbl :=
                filter (\<lambda>l. \<not> (l_comment_id l = cid \<and> l_user_id l = uid)) (comment_likes_tbl s),
              comments_tbl :=
                map (\<lambda>c. if c_id c = cid
                          then c\<lparr>c_likes_count := map_option (\<lambda>n. n - 1) (c_likes_count c),
                                 c_updated_at := ce_now e\<rparr>
                          else c) (comments_tbl s)\<rparr>"
  have "count_likes cid ?s' = count_likes cid s - 1"
    unfolding count_likes_def using count_without_match [OF one] by simp
  moreover have "list_all (\<lambda>c. c_likes_count c = Some (count_likes cid s - 1))
      (filter (\<lambda>c. c_id c = cid) (comments_tbl ?s'))"
    using updated_rows_exact [of "count_likes cid s" cid "comments_tbl s" "\<lambda>n. n - 1" "ce_now e"] assms
    by (simp add: likes_count_exact_def)
  ultimately have "likes_count_exact cid ?s'"
    unfolding likes_count_exact_def by (simp only:)
  with assms show ?thesis
    by (simp only: toggle_like_unlike [OF one] split: if_splits) simp
next
  case (Inl err)
  let ?s' = "s\<lparr>comment_likes_tbl := comment_likes_tbl s @
                [\<lparr> l_id = ce_uuid e, l_comment_id = cid, l_user_id = uid,
                   l_created_at = ce_now e \<rparr>],
              comments_tbl :=
                map (\<lambda>c. if c_id c = cid
                          then c\<lparr>c_likes_count := map_option (\<lambda>n. n + 1) (c_likes_count c),
                                 c_updated_at := ce_now e\<rparr>
                          else c) (comments_tbl s)\<rparr>"
  have "count_likes cid ?s' = count_likes cid s + 1"
    unfolding count_likes_def by simp
  moreover have "list_all (\<lambda>c. c_likes_count c = Some (count_likes cid s + 1))
      (filter (\<lambda>c. c_id c = cid) (comments_tbl ?s'))"
    using updated_rows_exact [of "count_likes cid s" cid "comments_tbl s" "\<lambda>n. n + 1" "ce_now e"] assms
    by (simp add: likes_count_exact_def)
  ultimately have "likes_count_exact cid ?s'"
    unfolding likes_count_exact_def by (simp only:)
  with assms show ?thesis
    by (simp only: toggle_like_like [OF Inl] split: if_splits) simp
qed

text \<open>Two toggles in a row: the like row is present afterwards iff it was before.\<close>

lemma toggle_like_twice:
  assumes schema: "likes_schema_ok s"
  shows "liked (toggle_like e2 cid uid (toggle_like e1 cid uid s)) cid uid = liked s cid uid"
proof -
  let ?match = "\<lambda>l. l_comment_id l = cid \<and> l_user_id l = uid"
  from schema have range: "list_all (\<lambda>c. case c_likes_count c of None \<Rightarrow> True | Some n \<Rightarrow> int4_ok n)
      (comments_tbl s)"
    and fk: "\<forall>l \<in> set (comment_likes_tbl s).
               l_comment_id l \<in> set (map c_id (comments_tbl s)) \<and> l_user_id l \<in> set (users_tbl s)"
    by (simp_all add: likes_schema_ok_def list_all_iff)
  show ?thesis
  proof (cases "select_like_single cid uid s")
    case (Inr l)
    then have one: "filter ?match (comment_likes_tbl s) = [l]"
      by (simp add: select_like_single_eq)
    then have before: "liked s cid uid"
      by (simp add: liked_filter)
    from one have "l \<in> set (filter ?match (comment_likes_tbl s))" by simp
    then have l: "l \<in> set (comment_likes_tbl s)" "l_comment_id l = cid" "l_user_id l = uid"
      by simp_all
    with fk have refs: "cid \<in> set (map c_id (comments_tbl s))" "uid \<in> set (users_tbl s)"
      by auto
    show ?thesis
    proof (cases "list_all (\<lambda>c. case c_likes_count c of None \<Rightarrow> True | Some n \<Rightarrow> int4_ok (n - 1))
                    (filter (\<lambda>c. c_id c = cid) (comments_tbl s))")
      case False
      then have "toggle_like e cid uid s = s" for e
        by (simp add: toggle_like_unlike [OF one])
      then show ?thesis by simp
    next
      case True
      define s1 where "s1 = s\<lparr>comment_likes_tbl := filter (\<lambda>l. \<not> ?match l) (comment_likes_tbl s),
              comments_tbl :=
                map (\<lambda>c. if c_id c = cid
                          then c\<lparr>c_likes_count := map_option (\<lambda>n. n - 1) (c_likes_count c),
                                 c_updated_at := ce_now e1\<rparr>
                          else c) (comments_tbl s)\<rparr>"
      from True have first: "toggle_like e1 cid uid s = s1"
        by (simp add: toggle_like_unlike [OF one] s1_def)
      have none: "filter ?match (comment_likes_tbl s1) = []"
        by (simp add: s1_def)
      then have sel: "select_like_single cid uid s1 = Inl no_single_row"
        by (simp add: select_like_single_def)
      have "\<not> liked s1 cid uid" using none by (simp add: liked_filter)
      moreover have "comments_tbl s1 =
                map (\<lambda>c. if c_id c = cid
                          then c\<lparr>c_likes_count := map_option (\<lambda>n. n - 1) (c_likes_count c),
                                 c_updated_at := ce_now e1\<rparr>
                          else c) (comments_tbl s)"
        by (simp add: s1_def)
      then have "map c_id (comments_tbl s1) = map c_id (comments_tbl s)"
        by (simp only: updated_rows_ids)
      with refs have "cid \<in> set (map c_id (comments_tbl s1))" "uid \<in> set (users_tbl s1)"
        by (simp_all add: s1_def)
      moreover have "list_all (\<lambda>c. case c_likes_count c of None \<Rightarrow> True | Some n \<Rightarrow> int4_ok (n + 1))
                       (filter (\<lambda>c. c_id c = cid) (comments_tbl s1))"
        using updated_rows_in_range [OF range, of "\<lambda>n. n + 1" "\<lambda>n. n - 1" cid "ce_now e1"]
        by (simp add: s1_def)
      ultimately have "comment_likes_tbl (toggle_like e2 cid uid s1) =
          comment_likes_tbl s1 @ [\<lparr> l_id = ce_uuid e2, l_comment_id = cid, l_user_id = uid,
                                     l_created_at = ce_now e2 \<rparr>]"
        by (simp add: toggle_like_like [OF sel])
      then have "liked (toggle_like e2 cid uid s1) cid uid"
        by (simp add: liked_filter)
      with before first show ?thesis by simp
    qed
  next
    case (Inl err)
    show ?thesis
    proof (cases "\<not> liked s cid uid \<and> cid \<in> set (map c_id (comments_tbl s)) \<and> uid \<in> set (users_tbl s)
         \<and> list_all (\<lambda>c. case c_likes_count c of None \<Rightarrow> True | Some n \<Rightarrow> int4_ok (n + 1))
              (filter (\<lambda>c. c_id c = cid) (comments_tbl s))")
      case False
      then have "toggle_like e cid uid s = s" for e
        by (subst toggle_like_like [OF Inl]) (rule if_not_P)
      then show ?thesis by simp
    next
      case True
      then have before: "\<not> liked s cid uid" by simp
      then have none: "filter ?match (comment_likes_tbl s) = []"
        by (simp add: liked_filter)
      let ?new = "\<lparr> l_id = ce_uuid e1, l_comment_id = cid, l_user_id = uid, l_created_at = ce_now e1 \<rparr>"
      define s1 where "s1 = s\<lparr>comment_likes_tbl := comment_likes_tbl s @ [?new],
              comments_tbl :=
                map (\<lambda>c. if c_id c = cid
                          then c\<lparr>c_likes_count := map_option (\<lambda>n. n + 1) (c_likes_count c),
                                 c_updated_at := ce_now e1\<rparr>
                          else c) (comments_tbl s)\<rparr>"
      have first: "toggle_like e1 cid uid s = s1"
        unfolding s1_def by (subst toggle_like_like [OF Inl], rule if_P, rule True)
      have one: "filter ?match (comment_likes_tbl s1) = [?new]"
        using none by (simp add: s1_def)
      have "list_all (\<lambda>c. case c_likes_count c of None \<Rightarrow> True | Some n \<Rightarrow> int4_ok (n - 1))
                       (filter (\<lambda>c. c_id c = cid) (comments_tbl s1))"
        using updated_rows_in_range [OF range, of "\<lambda>n. n - 1" "\<lambda>n. n + 1" cid "ce_now e1"]
        by (simp add: s1_def)
      then have "comment_likes_tbl (toggle_like e2 cid uid s1) =
          filter (\<lambda>l. \<not> ?match l) (comment_likes_tbl s1)"
        by (simp add: toggle_like_unlike [OF one])
      then have "\<not> liked (toggle_like e2 cid uid s1) cid uid"
        by (simp add: liked_filter)
      with before first show ?thesis by simp
    qed
  qed
qed

text \<open>With every call answered, a call of \<open>likeComment\<close> does one toggle on the store.\<close>

lemma refetch_after_like_db: "db (snd (refetch_after_like env postId user w)) = db w"
  using fetchComments_db [of env postId user w]
  by (auto simp: refetch_after_like_def console_error_def split: prod.splits completion.splits)

lemma likeComment_db:
  assumes "\<forall>k. ce_fault (env k) = NoFault"
  shows "db (snd (likeComment env postId (Some uid) cid w))
           = toggle_like (env (Suc (length (calls w)))) cid uid (db w)"
proof -
  let ?w1 = "w\<lparr>calls := calls w @ [Select_like cid uid]\<rparr>"
  let ?e = "env (Suc (length (calls w)))"
  have sel: "select_like_call env cid uid w =
     (case select_like_single cid uid (db w) of Inl err \<Rightarrow> Error err | Inr l \<Rightarrow> Data l, ?w1)"
    using assms by (simp add: select_like_call_eq)
  have ins: "insert_like_call env cid uid ?w1 =
     (case insert_like (ce_uuid ?e) (ce_now ?e) (Some uid) cid uid (db w) of
        Inl err \<Rightarrow> (Error err, ?w1\<lparr>calls := calls ?w1 @ [Insert_like cid uid]\<rparr>)
      | Inr s' \<Rightarrow> (Data (), ?w1\<lparr>calls := calls ?w1 @ [Insert_like cid uid], db := s'\<rparr>))"
    using assms by (simp add: insert_like_call_eq)
  have del: "delete_like_call env cid uid ?w1 =
     (case delete_likes (ce_now ?e) (Some uid) cid uid (db w) of
        Inl err \<Rightarrow> (Error err, ?w1\<lparr>calls := calls ?w1 @ [Delete_like cid uid]\<rparr>)
      | Inr s' \<Rightarrow> (Data (), ?w1\<lparr>calls := calls ?w1 @ [Delete_like cid uid], db := s'\<rparr>))"
    using assms by (simp add: delete_like_call_eq)
  show ?thesis
    by (simp add: likeComment_def sel ins del toggle_like_def refetch_after_like_db
          console_error_def split: sum.splits)
qed

text \<open>
  C2. Let the service answer every call, and let the store satisfy what the schema
  guarantees of it (the foreign keys of the like rows, \<open>likes_count\<close> an
  \<open>INTEGER\<close>). After two calls of \<open>likeComment\<close> in a row for the same user and
  comment, the user's like row is present iff it was present before. If the
  comment's \<open>likes_count\<close> was the number of its like rows before the first call, it
  is so after the first call and after the second.
\<close>

theorem like_toggle_law:
  fixes env :: env and postId :: uuid and uid :: uuid and cid :: uuid and w :: world
  assumes "\<forall>k. ce_fault (env k) = NoFault"
    and "likes_schema_ok (db w)"
  defines "w1 \<equiv> snd (likeComment env postId (Some uid) cid w)"
  defines "w2 \<equiv> snd (likeComment env postId (Some uid) cid w1)"
  shows "liked (db w2) cid uid = liked (db w) cid uid
         \<and> (likes_count_exact cid (db w) \<longrightarrow>
              likes_count_exact cid (db w1) \<and> likes_count_exact cid (db w2))"
proof -
  have w1: "db w1 = toggle_like (env (Suc (length (calls w)))) cid uid (db w)"
    unfolding w1_def using assms(1) by (rule likeComment_db)
  have w2: "db w2 = toggle_like (env (Suc (length (calls w1)))) cid uid (db w1)"
    unfolding w2_def using assms(1) by (rule likeComment_db)
  show ?thesis
    unfolding w2 unfolding w1
    using toggle_like_twice [OF assms(2)] by (simp add: toggle_like_exact)
qed

lemma demo_toggles:
  "toggle_like (quiet_env k) ''c1'' ''user-1'' demo_store =
     demo_store\<lparr>comments_tbl :=
        [demo_comment ''c3'' (Some ''c2'') 30,
         (demo_comment ''c1'' None 10)\<lparr>c_likes_count := Some 1, c_updated_at := 40\<rparr>,
         demo_comment ''c2'' (Some ''c1'') 20],
       comment_likes_tbl :=
         [\<lparr> l_id = ''fresh'', l_comment_id = ''c1'', l_user_id = ''user-1'', l_created_at = 40 \<rparr>]\<rparr>"
  "toggle_like (quiet_env k) ''c1'' ''user-1'' liked_store =
     liked_store\<lparr>comments_tbl :=
        [(demo_comment ''c1'' None 10)\<lparr>c_likes_count := Some 0, c_updated_at := 40\<rparr>],
       comment_likes_tbl := []\<rparr>"
  by (simp_all add: toggle_like_def select_like_single_def insert_like_def delete_likes_def
        update_comment_likes_count_def update_likes_count_def update_updated_at_column_def
        int4_ok_def Let_def quiet_env_def demo_store_def liked_store_def demo_like_def
        demo_comment_def)

theorem like_toggle_law_witness:
  "(\<forall>k. ce_fault (quiet_env k) = NoFault)
   \<and> likes_schema_ok (db demo_world) \<and> likes_count_exact ''c1'' (db demo_world)
   \<and> \<not> liked (db demo_world) ''c1'' ''user-1''
   \<and> liked (db (snd (likeComment quiet_env ''post-1'' (Some ''user-1'') ''c1'' demo_world)))
        ''c1'' ''user-1''
   \<and> \<not> liked (db (snd (likeComment quiet_env ''post-1'' (Some ''user-1'') ''c1''
                        (snd (likeComment quiet_env ''post-1'' (Some ''user-1'') ''c1'' demo_world)))))
          ''c1'' ''user-1''
   \<and> likes_count_exact ''c1''
        (db (snd (likeComment quiet_env ''post-1'' (Some ''user-1'') ''c1'' demo_world)))
   \<and> likes_count_exact ''c1''
        (db (snd (likeComment quiet_env ''post-1'' (Some ''user-1'') ''c1''
                    (snd (likeComment quiet_env ''post-1'' (Some ''user-1'') ''c1'' demo_world)))))
   \<and> likes_schema_ok (db liked_world) \<and> likes_count_exact ''c1'' (db liked_world)
   \<and> liked (db liked_world) ''c1'' ''user-1''
   \<and> \<not> liked (db (snd (likeComment quiet_env ''post-1'' (Some ''user-1'') ''c1'' liked_world)))
          ''c1'' ''user-1''
   \<and> liked (db (snd (likeComment quiet_env ''post-1'' (Some ''user-1'') ''c1''
                      (snd (likeComment quiet_env ''post-1'' (Some ''user-1'') ''c1'' liked_world)))))
        ''c1'' ''user-1''
   \<and> likes_count_exact ''c1''
        (db (snd (likeComment quiet_env ''post-1'' (Some ''user-1'') ''c1''
                    (snd (likeComment quiet_env ''post-1'' (Some ''user-1'') ''c1'' liked_world)))))"
proof -
  have quiet: "\<forall>k. ce_fault (quiet_env k) = NoFault"
    by (simp add: quiet_env_def)
  have demo: "likes_schema_ok (db demo_world)" "likes_count_exact ''c1'' (db demo_world)"
      "\<not> liked (db demo_world) ''c1'' ''user-1''"
    by (simp_all add: likes_schema_ok_def likes_count_exact_def liked_def count_likes_def
          demo_world_def demo_store_def demo_comment_def int4_ok_def)
  have liked: "likes_schema_ok (db liked_world)" "likes_count_exact ''c1'' (db liked_world)"
      "liked (db liked_world) ''c1'' ''user-1''"
    by (simp_all add: likes_schema_ok_def likes_count_exact_def liked_def count_likes_def
          liked_world_def liked_store_def demo_like_def demo_world_def demo_store_def
          demo_comment_def int4_ok_def)
  have flip1: "liked (db (snd (likeComment quiet_env ''post-1'' (Some ''user-1'') ''c1'' demo_world)))
        ''c1'' ''user-1''"
    by (simp add: likeComment_db [OF quiet] demo_world_def demo_toggles liked_def)
  have flip2: "\<not> liked (db (snd (likeComment quiet_env ''post-1'' (Some ''user-1'') ''c1'' liked_world)))
        ''c1'' ''user-1''"
    by (simp add: likeComment_db [OF quiet] liked_world_def demo_world_def demo_toggles liked_def)
  from like_toggle_law [OF quiet demo(1), of "''post-1''" "''user-1''" "''c1''"]
       like_toggle_law [OF quiet liked(1), of "''post-1''" "''user-1''" "''c1''"]
       quiet demo liked flip1 flip2
  show ?thesis by simp
qed

end
